theory Spec2Isabelle
  imports Main "HOL-Library.Multiset"
begin

section \<open>JavaScript values used by the room model\<close>

text \<open>
  A string is a list of characters, each a code point below U+0100 (one UTF-16 code
  unit), so \<open>length\<close> is the string's \<open>length\<close>. \<open>toLowerCase\<close> maps the capital letters
  of that range to their small letters: A to Z, and U+00C0 to U+00DE without the
  multiplication sign U+00D7. \<open>trim\<close> strips the white space and line terminators of that
  range from both ends: tab, line feed, vertical tab, form feed, carriage return, space
  and the no-break space U+00A0. \<open>charAt0\<close> is \<open>word.charAt(0)\<close> (the empty string on an
  empty word) and \<open>sliceLast\<close> is \<open>s.slice(-1)\<close>. \<open>splitLines\<close> is \<open>s.split("\n")\<close>.
\<close>

definition upperCaseLetters :: string where
  "upperCaseLetters =
     ''ABCDEFGHIJKLMNOPQRSTUVWXYZ'' @
     [CHR 0xC0, CHR 0xC1, CHR 0xC2, CHR 0xC3, CHR 0xC4, CHR 0xC5, CHR 0xC6, CHR 0xC7,
      CHR 0xC8, CHR 0xC9, CHR 0xCA, CHR 0xCB, CHR 0xCC, CHR 0xCD, CHR 0xCE, CHR 0xCF,
      CHR 0xD0, CHR 0xD1, CHR 0xD2, CHR 0xD3, CHR 0xD4, CHR 0xD5, CHR 0xD6,
      CHR 0xD8, CHR 0xD9, CHR 0xDA, CHR 0xDB, CHR 0xDC, CHR 0xDD, CHR 0xDE]"

definition lowerCaseLetters :: string where
  "lowerCaseLetters =
     ''abcdefghijklmnopqrstuvwxyz'' @
     [CHR 0xE0, CHR 0xE1, CHR 0xE2, CHR 0xE3, CHR 0xE4, CHR 0xE5, CHR 0xE6, CHR 0xE7,
      CHR 0xE8, CHR 0xE9, CHR 0xEA, CHR 0xEB, CHR 0xEC, CHR 0xED, CHR 0xEE, CHR 0xEF,
      CHR 0xF0, CHR 0xF1, CHR 0xF2, CHR 0xF3, CHR 0xF4, CHR 0xF5, CHR 0xF6,
      CHR 0xF8, CHR 0xF9, CHR 0xFA, CHR 0xFB, CHR 0xFC, CHR 0xFD, CHR 0xFE]"

definition lower_char :: "char \<Rightarrow> char" where
  "lower_char c =
     (case map_of (zip upperCaseLetters lowerCaseLetters) c of
        Some l \<Rightarrow> l
      | None \<Rightarrow> c)"

definition toLowerCase :: "string \<Rightarrow> string" where
  "toLowerCase s = map lower_char s"

definition is_space :: "char \<Rightarrow> bool" where
  "is_space c =
     (c \<in> set [CHR 0x09, CHR 0x0A, CHR 0x0B, CHR 0x0C, CHR 0x0D, CHR 0x20, CHR 0xA0])"

definition trim :: "string \<Rightarrow> string" where
  "trim s = rev (dropWhile is_space (rev (dropWhile is_space s)))"

definition charAt0 :: "string \<Rightarrow> string" where
  "charAt0 w = take 1 w"

definition sliceLast :: "string \<Rightarrow> string" where
  "sliceLast s = drop (length s - 1) s"

fun splitLines :: "string \<Rightarrow> string list" where
  "splitLines [] = [[]]"
| "splitLines (c # cs) =
     (if c = CHR 0x0A then [] # splitLines cs
      else (case splitLines cs of [] \<Rightarrow> [[c]] | l # ls \<Rightarrow> (c # l) # ls))"

text \<open>
  The \<open>word\<close> of a submission is whatever the client sent in that field: a string, or a
  value that is not a string (\<open>undefined\<close>, \<open>null\<close>, a number, an object), on which
  \<open>word.toLowerCase()\<close> throws a TypeError; \<open>NotAString\<close> carries the engine's message.
\<close>

datatype jsWord = JsString string | NotAString string

text \<open>
  Exceptions are values. \<open>errToString\<close> is \<open>error.toString()\<close>.
\<close>

datatype error = Error string | TypeError string | ReferenceError string

fun errToString :: "error \<Rightarrow> string" where
  "errToString (Error m) = ''Error: '' @ m"
| "errToString (TypeError m) = ''TypeError: '' @ m"
| "errToString (ReferenceError m) = ''ReferenceError: '' @ m"

text \<open>
  A username read from \<open>this.currentTurn\<close> may be \<open>undefined\<close> (\<open>None\<close>): an array read
  out of range yields \<open>undefined\<close>. In a template string it prints as "undefined".
\<close>

fun showName :: "string option \<Rightarrow> string" where
  "showName None = ''undefined''"
| "showName (Some u) = u"

text \<open>
  \<open>currentTurnIndex\<close> is a number; \<open>None\<close> stands for NaN, which \<open>x % 0\<close> produces.
  \<open>jsNextIndex i n\<close> is \<open>(i + 1) % n\<close> and \<open>jsNth xs i\<close> is \<open>xs[i]\<close>.
\<close>

fun jsNextIndex :: "nat option \<Rightarrow> nat \<Rightarrow> nat option" where
  "jsNextIndex None n = None"
| "jsNextIndex (Some i) n = (if n = 0 then None else Some ((i + 1) mod n))"

fun jsNth :: "'a list \<Rightarrow> nat option \<Rightarrow> 'a option" where
  "jsNth xs None = None"
| "jsNth xs (Some i) = (if i < length xs then Some (xs ! i) else None)"

section \<open>The room and its environment\<close>

record player =
  socketId :: string
  points :: int

text \<open>
  \<open>validWords\<close> holds what \<open>loadWordList\<close> returned: a \<open>Set\<close> of words, or the boolean
  that \<open>broadcast\<close> returned when the word file could not be read.
\<close>

datatype wordList = WordSet "string set" | NotASet bool

datatype callback = DeleteRoomExpired | EndGameCallback | RoundTimeoutCallback

datatype target = ToSocket string | ToRoom string

datatype payload =
    ErrorPayload string string
  | BroadcastErrorPayload string string string
  | RedirectPayload string string
  | Reason string
  | CurrentPlayer "string option"
  | WordPlayed string string nat
  | GameStarted "string option" "string list"
  | TimeRemaining nat
  | TimedOutPlayer "string option"
  | Message string
  | MessageError string string
  | GameEnded "string list" "(string \<times> player) list"

type_synonym event = "target \<times> string \<times> payload"

text \<open>
  The fields of \<open>GameRoom\<close>, followed by the part of the host the room acts on:
  \<open>emitted\<close> is the sequence of \<open>io.to(...).emit(...)\<close> calls made so far, \<open>pending\<close> the
  timers armed by \<open>setTimeout\<close> and not yet fired or cleared (handle, delay in
  milliseconds, callback), \<open>timerCount\<close> the next fresh handle. \<open>playersMap\<close> is a
  \<open>Map\<close>: an association list in insertion order.
\<close>

record gameRoom =
  creatorUsername :: string
  roomId :: string
  createdRoomTime :: nat
  roomExpiryTime :: nat
  gameEndTime :: nat
  isRoomActive :: bool
  isGameStarted :: bool
  isGameEnded :: bool
  maxPlayers :: nat
  playersMap :: "(string \<times> player) list"
  usedWordSet :: "string set"
  lastWord :: "string option"
  roomExpiryTimer :: "nat option"
  gameEndTimer :: "nat option"
  roundTimer :: "nat option"
  roomWinnerArray :: "string list option"
  currentTurn :: "string option"
  turnOrder :: "string list"
  currentTurnIndex :: "nat option"
  validWords :: wordList
  emitted :: "event list"
  pending :: "(nat \<times> nat \<times> callback) list"
  timerCount :: nat

definition emit :: "target \<Rightarrow> string \<Rightarrow> payload \<Rightarrow> gameRoom \<Rightarrow> gameRoom" where
  "emit t e p r = r\<lparr>emitted := emitted r @ [(t, e, p)]\<rparr>"

definition setTimeout :: "callback \<Rightarrow> nat \<Rightarrow> gameRoom \<Rightarrow> nat \<times> gameRoom" where
  "setTimeout cb delay r =
     (timerCount r,
      r\<lparr>pending := pending r @ [(timerCount r, delay, cb)], timerCount := Suc (timerCount r)\<rparr>)"

definition clearTimeout :: "nat \<Rightarrow> gameRoom \<Rightarrow> gameRoom" where
  "clearTimeout h r = r\<lparr>pending := filter (\<lambda>t. fst t \<noteq> h) (pending r)\<rparr>"

subsection \<open>Map operations on \<open>playersMap\<close>\<close>

definition mapHas :: "(string \<times> player) list \<Rightarrow> string \<Rightarrow> bool" where
  "mapHas m k = (map_of m k \<noteq> None)"

definition mapDelete :: "(string \<times> player) list \<Rightarrow> string \<Rightarrow> (string \<times> player) list" where
  "mapDelete m k = filter (\<lambda>kv. fst kv \<noteq> k) m"

definition mapSet :: "(string \<times> player) list \<Rightarrow> string \<Rightarrow> player \<Rightarrow> (string \<times> player) list" where
  "mapSet m k v =
     (if mapHas m k then map (\<lambda>kv. if fst kv = k then (k, v) else kv) m else m @ [(k, v)])"

definition mapKeys :: "(string \<times> player) list \<Rightarrow> string list" where
  "mapKeys m = map fst m"

subsection \<open>Notification helpers\<close>

text \<open>
  \<open>io.to(...).emit\<close> appends to \<open>emitted\<close> and does not throw, so the \<open>catch\<close> blocks
  of \<open>broadcast\<close> and \<open>sendToPlayer\<close> are not entered. \<open>console.error\<close> is not modelled,
  so \<open>handleError\<close> keeps only its broadcast.
\<close>

definition broadcast :: "string \<Rightarrow> payload \<Rightarrow> gameRoom \<Rightarrow> bool \<times> gameRoom" where
  "broadcast e p r = (True, emit (ToRoom (roomId r)) e p r)"

definition handleError :: "error \<Rightarrow> gameRoom \<Rightarrow> gameRoom" where
  "handleError err r =
     snd (broadcast ''errorOccurred''
            (ErrorPayload ''An unexpected error occurred in the game'' (errToString err)) r)"

definition getUserSocket :: "gameRoom \<Rightarrow> string option \<Rightarrow> string option" where
  "getUserSocket r u =
     (case u of None \<Rightarrow> None
      | Some n \<Rightarrow> (case map_of (playersMap r) n of None \<Rightarrow> None | Some p \<Rightarrow> Some (socketId p)))"

definition sendToPlayer :: "string option \<Rightarrow> string \<Rightarrow> payload \<Rightarrow> gameRoom \<Rightarrow> bool \<times> gameRoom" where
  "sendToPlayer u e p r =
     (case getUserSocket r u of
        None \<Rightarrow>
          (False, handleError
             (Error (''No socket was found in the player map for player '' @ showName u)) r)
      | Some sid \<Rightarrow>
          if sid = [] then
            (False, handleError
               (Error (''No socket was found in the player map for player '' @ showName u)) r)
          else (True, emit (ToSocket sid) e p r))"

subsection \<open>Players, used words, points\<close>

definition addPlayer :: "string \<Rightarrow> string \<Rightarrow> gameRoom \<Rightarrow> bool \<times> gameRoom" where
  "addPlayer username sid r =
     (if length (playersMap r) \<ge> maxPlayers r then
        (False, handleError (Error ''Room is full'') r)
      else if mapHas (playersMap r) username then
        (False, handleError (Error (''Player '' @ username @ '' already exists'')) r)
      else
        (True, r\<lparr>playersMap := mapSet (playersMap r) username \<lparr>socketId = sid, points = 0\<rparr>\<rparr>))"

definition isWordUsed :: "gameRoom \<Rightarrow> string \<Rightarrow> bool" where
  "isWordUsed r word = (toLowerCase word \<in> usedWordSet r)"

definition addUsedWords :: "string \<Rightarrow> gameRoom \<Rightarrow> gameRoom" where
  "addUsedWords word r =
     r\<lparr>usedWordSet := insert (toLowerCase word) (usedWordSet r),
       lastWord := Some (toLowerCase word)\<rparr>"

definition addPoints :: "string option \<Rightarrow> int \<Rightarrow> gameRoom \<Rightarrow> bool \<times> gameRoom" where
  "addPoints u n r =
     (case u of None \<Rightarrow> (False, r)
      | Some username \<Rightarrow>
          if mapHas (playersMap r) username then
            (True, r\<lparr>playersMap :=
                      map (\<lambda>kv. if fst kv = username
                                 then (fst kv, (snd kv)\<lparr>points := points (snd kv) + n\<rparr>)
                                 else kv) (playersMap r)\<rparr>)
          else (False, r))"

subsection \<open>Turn order\<close>

text \<open>
  \<open>shuffle\<close> is the outcome of \<open>.sort(() => Math.random() - 0.5)\<close> on the filtered key
  array: the engine's sort under a random comparator, taken as a parameter.
\<close>

definition initializeTurnOrder :: "(string list \<Rightarrow> string list) \<Rightarrow> gameRoom \<Rightarrow> gameRoom" where
  "initializeTurnOrder shuffle r =
     (let order = creatorUsername r #
                  shuffle (filter (\<lambda>username. username \<noteq> creatorUsername r) (mapKeys (playersMap r)))
      in r\<lparr>turnOrder := order, currentTurnIndex := Some 0, currentTurn := jsNth order (Some 0)\<rparr>)"

definition isPlayerTurn :: "gameRoom \<Rightarrow> string \<Rightarrow> bool" where
  "isPlayerTurn r username = (currentTurn r = Some username)"

definition nextTurn :: "gameRoom \<Rightarrow> string option \<times> gameRoom" where
  "nextTurn r =
     (let i = jsNextIndex (currentTurnIndex r) (length (turnOrder r));
          r1 = r\<lparr>currentTurnIndex := i, currentTurn := jsNth (turnOrder r) i\<rparr>;
          r2 = snd (broadcast ''turnChanged'' (CurrentPlayer (currentTurn r1)) r1)
      in (currentTurn r2, r2))"

subsection \<open>Dictionary\<close>

text \<open>
  \<open>file\<close> is the outcome of \<open>fs.readFileSync(wordListPath, "utf8")\<close>: the text, or the
  error it threw.
\<close>

definition loadWordList :: "error + string \<Rightarrow> gameRoom \<Rightarrow> wordList \<times> gameRoom" where
  "loadWordList file r =
     (case file of
        Inr text \<Rightarrow>
          (WordSet (set (filter (\<lambda>word. length word > 0)
                           (map (\<lambda>word. trim (toLowerCase word)) (splitLines text)))), r)
      | Inl err \<Rightarrow>
          (let r1 = handleError err r;
               res = broadcast ''redirectMainPage''
                       (RedirectPayload ''There was an issue loading the word list, redirecting ...''
                          (errToString err)) r1
           in (NotASet (fst res), snd res)))"

text \<open>
  In \<open>this.validWords.has(word.toLowerCase().trim())\<close> the argument is evaluated before
  the call is attempted, so a word that is not a string throws first.
\<close>

definition isValidWord :: "gameRoom \<Rightarrow> jsWord \<Rightarrow> error + bool" where
  "isValidWord r word =
     (case word of
        NotAString msg \<Rightarrow> Inl (TypeError msg)
      | JsString w \<Rightarrow>
          (case validWords r of
             WordSet ws \<Rightarrow> Inr (trim (toLowerCase w) \<in> ws)
           | NotASet b \<Rightarrow> Inl (TypeError ''this.validWords.has is not a function'')))"

subsection \<open>Validation\<close>

record validation =
  valid :: bool
  reason :: string

text \<open>
  Every statement of \<open>validateWordPlay\<close> is inside its \<open>try\<close>: an error thrown on the way
  is reported through \<open>handleError\<close> and the word is rejected.
\<close>

definition validateWordPlay :: "string \<Rightarrow> jsWord \<Rightarrow> gameRoom \<Rightarrow> validation \<times> gameRoom" where
  "validateWordPlay username word r =
     (if \<not> isPlayerTurn r username then
        (\<lparr>valid = False, reason = ''Not your turn''\<rparr>, r)
      else
        (case isValidWord r word of
           Inl err \<Rightarrow>
             (\<lparr>valid = False, reason = ''An unexpected error occurred during word validation''\<rparr>,
              handleError err r)
         | Inr inDictionary \<Rightarrow>
          if \<not> inDictionary then
            (\<lparr>valid = False, reason = ''Not a valid word''\<rparr>, r)
          else
            (case lastWord r of
               None \<Rightarrow> (\<lparr>valid = True, reason = ''First word''\<rparr>, r)
             | Some lw \<Rightarrow>
                 if lw = [] then (\<lparr>valid = True, reason = ''First word''\<rparr>, r)
                 else
                   (case word of
                      NotAString msg \<Rightarrow>
                        (\<lparr>valid = False,
                          reason = ''An unexpected error occurred during word validation''\<rparr>,
                         handleError (TypeError msg) r)
                    | JsString w \<Rightarrow>
                        (let lastChar = toLowerCase (sliceLast lw);
                             firstChar = toLowerCase (charAt0 w)
                         in if firstChar \<noteq> lastChar then
                              (\<lparr>valid = False,
                                reason = ''Word must start with '' @ [CHR 0x27] @ lastChar @
                                         [CHR 0x27]\<rparr>, r)
                            else if toLowerCase w \<in> usedWordSet r then
                              (\<lparr>valid = False, reason = ''Word has been used before''\<rparr>, r)
                            else (\<lparr>valid = True, reason = ''Valid word''\<rparr>, r))))))"

subsection \<open>Rounds and word plays\<close>

definition startRound :: "gameRoom \<Rightarrow> gameRoom" where
  "startRound r =
     (let r1 = (case roundTimer r of Some h \<Rightarrow> clearTimeout h r | None \<Rightarrow> r);
          t = setTimeout RoundTimeoutCallback (30 * 1000) r1;
          r2 = (snd t)\<lparr>roundTimer := Some (fst t)\<rparr>
      in snd (sendToPlayer (currentTurn r2) ''yourTurn'' (TimeRemaining 30) r2))"

text \<open>
  After a successful validation \<open>playWord\<close> works inside a \<open>try\<close>. A word that is not a
  string never gets there, because \<open>validateWordPlay\<close> rejects it; the branch for such
  a word is the \<open>catch\<close> of that block, entered when the block uses the word.
\<close>

definition playWord :: "string \<Rightarrow> jsWord \<Rightarrow> gameRoom \<Rightarrow> bool \<times> gameRoom" where
  "playWord username word r =
     (let v = validateWordPlay username word r in
      if \<not> valid (fst v) then
        (False, snd (sendToPlayer (Some username) ''wordPlayFailed'' (Reason (reason (fst v))) (snd v)))
      else
        (let r1 = snd v;
             r2 = (case roundTimer r1 of Some h \<Rightarrow> clearTimeout h r1 | None \<Rightarrow> r1)
         in case word of
              NotAString msg \<Rightarrow>
                (let r3 = handleError (TypeError msg) r2
                 in (False, snd (sendToPlayer (Some username) ''wordPlayFailed''
                                   (Reason ''An error occurred while processing your word'') r3)))
            | JsString w \<Rightarrow>
                (let r3 = snd (addPoints (Some username) (int (length w)) r2);
                     r4 = addUsedWords w r3;
                     r5 = snd (broadcast ''wordPlayed'' (WordPlayed username w (length w)) r4);
                     r6 = snd (nextTurn r5);
                     r7 = startRound r6
                 in (True, r7))))"

definition handleRoundTimeout :: "gameRoom \<Rightarrow> gameRoom" where
  "handleRoundTimeout r =
     (let r1 = snd (addPoints (currentTurn r) 0 r);
          r2 = snd (broadcast ''turnTimedOut'' (TimedOutPlayer (currentTurn r1)) r1);
          r3 = snd (nextTurn r2)
      in startRound r3)"

subsection \<open>Starting and ending the game\<close>

definition startGame :: "(string list \<Rightarrow> string list) \<Rightarrow> gameRoom \<Rightarrow> bool \<times> gameRoom" where
  "startGame shuffle r =
     (if isGameStarted r then (False, r)
      else if length (playersMap r) < 2 then
        (False, snd (broadcast ''gameStartedFailed'' (Reason ''Not enough players'') r))
      else
        (let r1 = initializeTurnOrder shuffle r;
             r2 = r1\<lparr>isGameStarted := True, isGameEnded := False\<rparr>;
             r3 = r2\<lparr>usedWordSet := {}, lastWord := None\<rparr>;
             t = setTimeout EndGameCallback (30 * 60 * 1000) r3;
             r4 = (snd t)\<lparr>gameEndTimer := Some (fst t)\<rparr>;
             r5 = snd (broadcast ''gameStarted'' (GameStarted (currentTurn r4) (turnOrder r4)) r4)
         in (True, startRound r5)))"

text \<open>
  The first statement of \<open>endGame()\<close> is
  \<open>const validation = this.validateWordPlay(username, word)\<close>. The method has no
  parameters, and neither the module nor the global object binds \<open>username\<close> or
  \<open>word\<close>: evaluating the first argument throws a ReferenceError, outside the method's
  \<open>try\<close>, before any field is read or written. The second component of a normal result
  would be the room after the call.
\<close>

definition endGame :: "gameRoom \<Rightarrow> error + (bool \<times> gameRoom)" where
  "endGame r = Inl (ReferenceError ''username is not defined'')"

definition winnerStep :: "int \<times> string list \<Rightarrow> string \<times> player \<Rightarrow> int \<times> string list" where
  "winnerStep acc kv =
     (if points (snd kv) > fst acc then (points (snd kv), [fst kv])
      else if points (snd kv) = fst acc then (fst acc, snd acc @ [fst kv])
      else acc)"

definition determineWinner :: "gameRoom \<Rightarrow> string list" where
  "determineWinner r = snd (foldl winnerStep (- 1, []) (playersMap r))"

text \<open>
  The older copy of the class (kept beside the router) has a single-winner
  \<open>determineWinner\<close>: it keeps the first player with a strictly higher score, or \<open>null\<close>.
\<close>

definition legacyWinnerStep :: "string option \<times> int \<Rightarrow> string \<times> player \<Rightarrow> string option \<times> int" where
  "legacyWinnerStep acc kv =
     (if points (snd kv) > snd acc then (Some (fst kv), points (snd kv)) else acc)"

definition determineWinnerLegacy :: "gameRoom \<Rightarrow> string option" where
  "determineWinnerLegacy r = fst (foldl legacyWinnerStep (None, - 1) (playersMap r))"

definition clearGameTimers :: "gameRoom \<Rightarrow> gameRoom" where
  "clearGameTimers r =
     (let r1 = (case gameEndTimer r of
                  Some h \<Rightarrow> (clearTimeout h r)\<lparr>gameEndTimer := None\<rparr> | None \<Rightarrow> r);
          r2 = (case roundTimer r1 of
                  Some h \<Rightarrow> (clearTimeout h r1)\<lparr>roundTimer := None\<rparr> | None \<Rightarrow> r1)
      in (case roomExpiryTimer r2 of
            Some h \<Rightarrow> (clearTimeout h r2)\<lparr>roomExpiryTimer := None\<rparr> | None \<Rightarrow> r2))"

definition deleteRoom :: "string \<Rightarrow> gameRoom \<Rightarrow> gameRoom" where
  "deleteRoom why r =
     (let r1 = clearGameTimers r;
          r2 = (case roomExpiryTimer r1 of Some h \<Rightarrow> clearTimeout h r1 | None \<Rightarrow> r1)
      in snd (broadcast ''roomDeleted'' (Reason why) r2))"

text \<open>
  \<open>removePlayer\<close> runs inside \<open>try\<close>: the error thrown by \<open>endGame()\<close> is caught after the
  player has been deleted from \<open>playersMap\<close> and \<open>turnOrder\<close>, reported through
  \<open>handleError\<close>, and the method returns false. \<open>remove1\<close> is \<open>indexOf\<close> followed by
  \<open>splice(playerIndex, 1)\<close>.
\<close>

definition removePlayer :: "string \<Rightarrow> gameRoom \<Rightarrow> bool \<times> gameRoom" where
  "removePlayer username r =
     (if mapHas (playersMap r) username then
        (let r1 = r\<lparr>playersMap := mapDelete (playersMap r) username\<rparr>;
             r2 = (if username \<in> set (turnOrder r1)
                   then r1\<lparr>turnOrder := remove1 username (turnOrder r1)\<rparr> else r1)
         in if currentTurn r2 = Some username then
              (if length (turnOrder r2) > 0 then
                 (let i = jsNextIndex (currentTurnIndex r2) (length (turnOrder r2));
                      r3 = r2\<lparr>currentTurnIndex := i, currentTurn := jsNth (turnOrder r2) i\<rparr>
                  in (True, snd (broadcast ''turnChanged'' (CurrentPlayer (currentTurn r3)) r3)))
               else
                 (case endGame r2 of
                    Inl err \<Rightarrow> (False, handleError err r2)
                  | Inr res \<Rightarrow>
                      (True, snd (broadcast ''turnChanged''
                                    (CurrentPlayer (currentTurn (snd res))) (snd res)))))
            else (True, r2))
      else (False, r))"

subsection \<open>Construction and timers\<close>

definition newGameRoom :: "string \<Rightarrow> string \<Rightarrow> string \<Rightarrow> nat \<Rightarrow> error + string \<Rightarrow> gameRoom" where
  "newGameRoom creator rid creatorSocketId now file =
     (let r = \<lparr>creatorUsername = creator, roomId = rid, createdRoomTime = now,
               roomExpiryTime = now + 60 * 60 * 1000, gameEndTime = now + 30 * 60 * 1000,
               isRoomActive = True, isGameStarted = False, isGameEnded = False,
               maxPlayers = 4,
               playersMap = [(creator, \<lparr>socketId = creatorSocketId, points = 0\<rparr>)],
               usedWordSet = {}, lastWord = None,
               roomExpiryTimer = Some 0, gameEndTimer = None, roundTimer = None,
               roomWinnerArray = None,
               currentTurn = Some creator, turnOrder = [], currentTurnIndex = Some 0,
               validWords = NotASet False,
               emitted = [], pending = [(0, 60 * 60 * 1000, DeleteRoomExpired)],
               timerCount = 1\<rparr>;
          res = loadWordList file r
      in (snd res)\<lparr>validWords := fst res\<rparr>)"

text \<open>
  A pending timer fires: it leaves \<open>pending\<close> and its callback runs. An error thrown by
  the callback is uncaught (\<open>Inl\<close>).
\<close>

definition fireTimer :: "nat \<Rightarrow> gameRoom \<Rightarrow> error + gameRoom" where
  "fireTimer h r =
     (case find (\<lambda>t. fst t = h) (pending r) of
        None \<Rightarrow> Inr r
      | Some t \<Rightarrow>
          (let r1 = r\<lparr>pending := filter (\<lambda>t. fst t \<noteq> h) (pending r)\<rparr>
           in case snd (snd t) of
                DeleteRoomExpired \<Rightarrow> Inr (deleteRoom ''Room expired'' r1)
              | EndGameCallback \<Rightarrow>
                  (case endGame r1 of Inl err \<Rightarrow> Inl err | Inr res \<Rightarrow> Inr (snd res))
              | RoundTimeoutCallback \<Rightarrow> Inr (handleRoundTimeout r1)))"

section \<open>Reachable rooms\<close>

text \<open>
  A room is created by the constructor and then changed by method calls (the router calls
  \<open>addPlayer\<close>, \<open>removePlayer\<close>, \<open>startGame\<close> and \<open>playWord\<close>; the other public methods
  are included as well) and by timers that fire. The random sort of \<open>startGame\<close> returns
  some permutation of its input.
\<close>

inductive reachable :: "gameRoom \<Rightarrow> bool" where
  created: "reachable (newGameRoom creator rid sid now file)"
| added: "reachable r \<Longrightarrow> reachable (snd (addPlayer username sid r))"
| removed: "reachable r \<Longrightarrow> reachable (snd (removePlayer username r))"
| started: "reachable r \<Longrightarrow> (\<And>xs. mset (shuffle xs) = mset xs) \<Longrightarrow>
            reachable (snd (startGame shuffle r))"
| played: "reachable r \<Longrightarrow> reachable (snd (playWord username word r))"
| turned: "reachable r \<Longrightarrow> reachable (snd (nextTurn r))"
| round_started: "reachable r \<Longrightarrow> reachable (startRound r)"
| timed_out: "reachable r \<Longrightarrow> reachable (handleRoundTimeout r)"
| deleted: "reachable r \<Longrightarrow> reachable (deleteRoom why r)"
| ended: "reachable r \<Longrightarrow> endGame r = Inr res \<Longrightarrow> reachable (snd res)"
| fired: "reachable r \<Longrightarrow> fireTimer h r = Inr r' \<Longrightarrow> reachable r'"

section \<open>The router's end-game handler and the user table\<close>

text \<open>
  The \<open>Users\<close> table holds the columns the statistics queries read and write. Every
  \<open>pool.query\<close> may call back with an error: \<open>qerr\<close> gives the driver's error for a
  query, if any. \<open>WHERE username = ?\<close> compares names as stored.
\<close>

record userRow =
  username :: string
  gamesPlayed :: int
  gamesWon :: int

datatype query = SelectStats string | UpdateStats string int int

definition getUserStatsByUsername ::
  "(query \<Rightarrow> error option) \<Rightarrow> userRow list \<Rightarrow> string \<Rightarrow> error + userRow" where
  "getUserStatsByUsername qerr db name =
     (case qerr (SelectStats name) of
        Some err \<Rightarrow> Inl err
      | None \<Rightarrow>
          (case filter (\<lambda>row. username row = name) db of
             [] \<Rightarrow> Inl (Error ''User not found'')
           | row # rest \<Rightarrow> Inr row))"

definition updateUserStatsByUserName ::
  "(query \<Rightarrow> error option) \<Rightarrow> userRow list \<Rightarrow> string \<Rightarrow> int \<Rightarrow> int \<Rightarrow> error + userRow list" where
  "updateUserStatsByUserName qerr db name played won =
     (case qerr (UpdateStats name played won) of
        Some err \<Rightarrow> Inl err
      | None \<Rightarrow>
          Inr (map (\<lambda>row. if username row = name
                           then row\<lparr>gamesPlayed := played, gamesWon := won\<rparr> else row) db))"

text \<open>
  One iteration of \<open>for (const winner of winners)\<close>: the inner \<open>try\<close> logs a rejected
  fetch or update and goes on with the table as it is.
\<close>

definition updateWinnerStats ::
  "(query \<Rightarrow> error option) \<Rightarrow> userRow list \<Rightarrow> string \<Rightarrow> userRow list" where
  "updateWinnerStats qerr db winner =
     (case getUserStatsByUsername qerr db winner of
        Inl statsError \<Rightarrow> db
      | Inr userStats \<Rightarrow>
          (case updateUserStatsByUserName qerr db winner
                  (gamesPlayed userStats + 1) (gamesWon userStats + 1) of
             Inl statsError \<Rightarrow> db
           | Inr db' \<Rightarrow> db'))"

record router =
  rooms :: "string \<rightharpoonup> gameRoom"
  users :: "userRow list"
  sent :: "event list"

text \<open>
  \<open>socketEvents.endGame\<close>, run to completion: the handlers that may interleave at its
  \<open>await\<close>s are not modelled.
\<close>

definition routerEndGame ::
  "(query \<Rightarrow> error option) \<Rightarrow> string \<Rightarrow> string \<Rightarrow> router \<Rightarrow> router" where
  "routerEndGame qerr socket rid s =
     (case rooms s rid of
        None \<Rightarrow> s\<lparr>sent := sent s @ [(ToSocket socket, ''errorOccurred'', Message ''Room not found'')]\<rparr>
      | Some room \<Rightarrow>
          (let winners = determineWinner room;
               db = foldl (updateWinnerStats qerr) (users s) winners
           in s\<lparr>users := db,
                sent := sent s @ [(ToRoom rid, ''gameEnded'', GameEnded winners (playersMap room))],
                rooms := (rooms s)(rid := None)\<rparr>))"

section \<open>Sample rooms\<close>

text \<open>
  Alice creates a room with a four-word dictionary, Bob joins, the game starts with the
  joining order kept by the sort, and Alice plays "Apple".
\<close>

definition sampleLobby :: gameRoom where
  "sampleLobby =
     snd (addPlayer ''bob'' ''sB''
       (newGameRoom ''alice'' ''room_1'' ''sA'' 0
          (Inr ''apple\<newline>Elephant\<newline>eagle\<newline>tiger'')))"

definition sampleStarted :: gameRoom where
  "sampleStarted = snd (startGame id sampleLobby)"

definition sampleRoom :: gameRoom where
  "sampleRoom = snd (playWord ''alice'' (JsString ''Apple'') sampleStarted)"

text \<open>
  Three players: Carol joins before the start, Alice plays "Apple" and then leaves.
\<close>

definition threeLobby :: gameRoom where
  "threeLobby = snd (addPlayer ''carol'' ''sC'' sampleLobby)"

definition threeStarted :: gameRoom where
  "threeStarted = snd (startGame id threeLobby)"

definition threeAfterLeave :: gameRoom where
  "threeAfterLeave =
     snd (removePlayer ''alice'' (snd (playWord ''alice'' (JsString ''Apple'') threeStarted)))"

text \<open>
  The creator leaves the lobby of a three-player room, and the two others start the game.
\<close>

definition creatorLeft :: gameRoom where
  "creatorLeft = snd (removePlayer ''alice'' threeLobby)"

definition creatorLeftStarted :: gameRoom where
  "creatorLeftStarted = snd (startGame id creatorLeft)"

text \<open>
  Bob answers with "Eagle": both players have five points. The router holds this room
  and a user table with both players; the driver fails the statistics query for Alice.
\<close>

definition tieRoom :: gameRoom where
  "tieRoom = snd (playWord ''bob'' (JsString ''Eagle'') sampleRoom)"

definition sampleRouter :: router where
  "sampleRouter =
     \<lparr>rooms = [''room_1'' \<mapsto> tieRoom],
      users = [\<lparr>username = ''alice'', gamesPlayed = 3, gamesWon = 1\<rparr>,
               \<lparr>username = ''bob'', gamesPlayed = 7, gamesWon = 2\<rparr>],
      sent = []\<rparr>"

definition failAlice :: "query \<Rightarrow> error option" where
  "failAlice q = (if q = SelectStats ''alice'' then Some (Error ''ECONNRESET'') else None)"

section \<open>Auxiliary predicates\<close>

text \<open>
  The loop invariant of \<open>determineWinner\<close> after the entries \<open>xs\<close>: the running maximum
  bounds every score seen, it is the initial -1 or a score seen, and the winners are the
  players seen with that score, in map order.
\<close>

definition winnerInv :: "(string \<times> player) list \<Rightarrow> int \<times> string list \<Rightarrow> bool" where
  "winnerInv xs acc =
     ((\<forall>kv \<in> set xs. points (snd kv) \<le> fst acc) \<and>
      (fst acc = - 1 \<or> fst acc \<in> (\<lambda>kv. points (snd kv)) ` set xs) \<and>
      snd acc = map fst (filter (\<lambda>kv. points (snd kv) = fst acc) xs))"

text \<open>
  Every score in the room is non-negative.
\<close>

definition pointsNonneg :: "gameRoom \<Rightarrow> bool" where
  "pointsNonneg r = (\<forall>kv \<in> set (playersMap r). 0 \<le> points (snd kv))"

section \<open>Evaluating the sample rooms\<close>

lemmas room_eval =
  newGameRoom_def loadWordList_def startGame_def addPlayer_def mapHas_def mapSet_def mapDelete_def
  initializeTurnOrder_def mapKeys_def setTimeout_def clearTimeout_def broadcast_def emit_def
  startRound_def sendToPlayer_def getUserSocket_def handleError_def removePlayer_def endGame_def
  nextTurn_def handleRoundTimeout_def addPoints_def playWord_def validateWordPlay_def
  isPlayerTurn_def isValidWord_def addUsedWords_def toLowerCase_def lower_char_def
  upperCaseLetters_def lowerCaseLetters_def trim_def is_space_def charAt0_def sliceLast_def
  Let_def

lemma sampleLobby_eq:
  "sampleLobby =
     \<lparr>creatorUsername = ''alice'', roomId = ''room_1'', createdRoomTime = 0,
      roomExpiryTime = 3600000, gameEndTime = 1800000,
      isRoomActive = True, isGameStarted = False, isGameEnded = False, maxPlayers = 4,
      playersMap = [(''alice'', \<lparr>socketId = ''sA'', points = 0\<rparr>),
                    (''bob'', \<lparr>socketId = ''sB'', points = 0\<rparr>)],
      usedWordSet = {}, lastWord = None,
      roomExpiryTimer = Some 0, gameEndTimer = None, roundTimer = None,
      roomWinnerArray = None,
      currentTurn = Some ''alice'', turnOrder = [], currentTurnIndex = Some 0,
      validWords = WordSet {''apple'', ''elephant'', ''eagle'', ''tiger''},
      emitted = [], pending = [(0, 3600000, DeleteRoomExpired)], timerCount = 1\<rparr>"
  by (simp add: sampleLobby_def room_eval cong: let_weak_cong)

lemma sampleStarted_eq:
  "sampleStarted =
     sampleLobby\<lparr>isGameStarted := True, turnOrder := [''alice'', ''bob''],
       gameEndTimer := Some 1, roundTimer := Some 2,
       emitted := [(ToRoom ''room_1'', ''gameStarted'',
                      GameStarted (Some ''alice'') [''alice'', ''bob'']),
                   (ToSocket ''sA'', ''yourTurn'', TimeRemaining 30)],
       pending := [(0, 3600000, DeleteRoomExpired), (1, 1800000, EndGameCallback),
                   (2, 30000, RoundTimeoutCallback)],
       timerCount := 3\<rparr>"
  unfolding sampleStarted_def sampleLobby_eq
  by (simp add: room_eval cong: let_weak_cong)

lemma sampleRoom_eq:
  "sampleRoom =
     sampleStarted\<lparr>
       playersMap := [(''alice'', \<lparr>socketId = ''sA'', points = 5\<rparr>),
                      (''bob'', \<lparr>socketId = ''sB'', points = 0\<rparr>)],
       usedWordSet := {''apple''}, lastWord := Some ''apple'',
       roundTimer := Some 3, currentTurn := Some ''bob'', currentTurnIndex := Some 1,
       emitted := emitted sampleStarted @
                  [(ToRoom ''room_1'', ''wordPlayed'', WordPlayed ''alice'' ''Apple'' 5),
                   (ToRoom ''room_1'', ''turnChanged'', CurrentPlayer (Some ''bob'')),
                   (ToSocket ''sB'', ''yourTurn'', TimeRemaining 30)],
       pending := [(0, 3600000, DeleteRoomExpired), (1, 1800000, EndGameCallback),
                   (3, 30000, RoundTimeoutCallback)],
       timerCount := 4\<rparr>"
  unfolding sampleRoom_def sampleStarted_eq sampleLobby_eq
  by (simp add: room_eval cong: let_weak_cong)

lemma threeLobby_eq:
  "threeLobby =
     sampleLobby\<lparr>
       playersMap := [(''alice'', \<lparr>socketId = ''sA'', points = 0\<rparr>),
                      (''bob'', \<lparr>socketId = ''sB'', points = 0\<rparr>),
                      (''carol'', \<lparr>socketId = ''sC'', points = 0\<rparr>)]\<rparr>"
  unfolding threeLobby_def sampleLobby_eq
  by (simp add: room_eval cong: let_weak_cong)

lemma threeStarted_eq:
  "threeStarted =
     threeLobby\<lparr>
       isGameStarted := True, turnOrder := [''alice'', ''bob'', ''carol''],
       gameEndTimer := Some 1, roundTimer := Some 2,
       emitted := [(ToRoom ''room_1'', ''gameStarted'',
                      GameStarted (Some ''alice'') [''alice'', ''bob'', ''carol'']),
                   (ToSocket ''sA'', ''yourTurn'', TimeRemaining 30)],
       pending := [(0, 3600000, DeleteRoomExpired), (1, 1800000, EndGameCallback),
                   (2, 30000, RoundTimeoutCallback)],
       timerCount := 3\<rparr>"
  unfolding threeStarted_def threeLobby_eq sampleLobby_eq
  by (simp add: room_eval cong: let_weak_cong)

lemma threeAfterLeave_eq:
  "threeAfterLeave =
     threeStarted\<lparr>
       playersMap := [(''bob'', \<lparr>socketId = ''sB'', points = 0\<rparr>),
                      (''carol'', \<lparr>socketId = ''sC'', points = 0\<rparr>)],
       usedWordSet := {''apple''}, lastWord := Some ''apple'',
       roundTimer := Some 3, currentTurn := Some ''bob'',
       turnOrder := [''bob'', ''carol''], currentTurnIndex := Some 1,
       emitted := emitted threeStarted @
                  [(ToRoom ''room_1'', ''wordPlayed'', WordPlayed ''alice'' ''Apple'' 5),
                   (ToRoom ''room_1'', ''turnChanged'', CurrentPlayer (Some ''bob'')),
                   (ToSocket ''sB'', ''yourTurn'', TimeRemaining 30)],
       pending := [(0, 3600000, DeleteRoomExpired), (1, 1800000, EndGameCallback),
                   (3, 30000, RoundTimeoutCallback)],
       timerCount := 4\<rparr>"
  unfolding threeAfterLeave_def threeStarted_eq threeLobby_eq sampleLobby_eq
  by (simp add: room_eval cong: let_weak_cong)

lemma creatorLeft_eq:
  "creatorLeft =
     sampleLobby\<lparr>
       playersMap := [(''bob'', \<lparr>socketId = ''sB'', points = 0\<rparr>),
                      (''carol'', \<lparr>socketId = ''sC'', points = 0\<rparr>)],
       emitted := [(ToRoom ''room_1'', ''errorOccurred'',
                      ErrorPayload ''An unexpected error occurred in the game''
                        ''ReferenceError: username is not defined'')]\<rparr>"
  unfolding creatorLeft_def threeLobby_eq sampleLobby_eq
  by (simp add: room_eval cong: let_weak_cong)

lemma creatorLeftStarted_eq:
  "creatorLeftStarted =
     creatorLeft\<lparr>
       isGameStarted := True, turnOrder := [''alice'', ''bob'', ''carol''],
       gameEndTimer := Some 1, roundTimer := Some 2,
       emitted := emitted creatorLeft @
                  [(ToRoom ''room_1'', ''gameStarted'',
                      GameStarted (Some ''alice'') [''alice'', ''bob'', ''carol'']),
                   (ToRoom ''room_1'', ''errorOccurred'',
                      ErrorPayload ''An unexpected error occurred in the game''
                        ''Error: No socket was found in the player map for player alice'')],
       pending := [(0, 3600000, DeleteRoomExpired), (1, 1800000, EndGameCallback),
                   (2, 30000, RoundTimeoutCallback)],
       timerCount := 3\<rparr>"
  unfolding creatorLeftStarted_def creatorLeft_eq sampleLobby_eq
  by (simp add: room_eval cong: let_weak_cong)

lemma tieRoom_players:
  "playersMap tieRoom = [(''alice'', \<lparr>socketId = ''sA'', points = 5\<rparr>),
                         (''bob'', \<lparr>socketId = ''sB'', points = 5\<rparr>)]"
  unfolding tieRoom_def sampleRoom_eq sampleStarted_eq sampleLobby_eq
  by (simp add: room_eval cong: let_weak_cong)

lemma id_shuffle: "mset (id xs) = mset xs"
  by simp

lemma reachable_sampleLobby: "reachable sampleLobby"
  unfolding sampleLobby_def by (rule reachable.added, rule reachable.created)

lemma reachable_sampleRoom: "reachable sampleRoom"
  unfolding sampleRoom_def sampleStarted_def
  by (intro reachable.played reachable.started reachable_sampleLobby id_shuffle)

lemma reachable_threeAfterLeave: "reachable threeAfterLeave"
  unfolding threeAfterLeave_def threeStarted_def threeLobby_def
  by (intro reachable.removed reachable.played reachable.started reachable.added
        reachable_sampleLobby id_shuffle)

section \<open>Winners\<close>

lemma winnerInv_step:
  assumes "winnerInv xs acc"
  shows "winnerInv (xs @ [x]) (winnerStep acc x)"
proof -
  obtain m ws where acc: "acc = (m, ws)" by (cases acc)
  from assms acc have le: "\<forall>kv \<in> set xs. points (snd kv) \<le> m"
    and mem: "m = - 1 \<or> m \<in> (\<lambda>kv. points (snd kv)) ` set xs"
    and ws: "ws = map fst (filter (\<lambda>kv. points (snd kv) = m) xs)"
    by (simp_all add: winnerInv_def)
  consider (gt) "points (snd x) > m" | (eq) "points (snd x) = m" | (lt) "points (snd x) < m"
    by linarith
  then show ?thesis
  proof cases
    case gt
    then have step: "winnerStep acc x = (points (snd x), [fst x])"
      by (simp add: acc winnerStep_def)
    have none: "filter (\<lambda>kv. points (snd kv) = points (snd x)) xs = []"
    proof -
      have "\<forall>kv \<in> set xs. points (snd kv) \<noteq> points (snd x)"
      proof
        fix kv assume "kv \<in> set xs"
        with le have "points (snd kv) \<le> m" by blast
        with gt show "points (snd kv) \<noteq> points (snd x)" by linarith
      qed
      then show ?thesis by (simp add: filter_empty_conv)
    qed
    have bound: "\<forall>kv \<in> set (xs @ [x]). points (snd kv) \<le> points (snd x)"
    proof
      fix kv assume "kv \<in> set (xs @ [x])"
      then consider "kv \<in> set xs" | "kv = x" by auto
      then show "points (snd kv) \<le> points (snd x)"
      proof cases
        case 1
        with le have "points (snd kv) \<le> m" by blast
        with gt show ?thesis by linarith
      next
        case 2 then show ?thesis by simp
      qed
    qed
    show ?thesis unfolding step winnerInv_def fst_conv snd_conv
      using bound none by simp
  next
    case eq
    then have step: "winnerStep acc x = (m, ws @ [fst x])"
      by (simp add: acc winnerStep_def)
    show ?thesis unfolding step winnerInv_def fst_conv snd_conv
      using eq le ws by simp
  next
    case lt
    then have step: "winnerStep acc x = (m, ws)"
      by (simp add: acc winnerStep_def)
    have seen: "m = - 1 \<or> m \<in> (\<lambda>kv. points (snd kv)) ` set (xs @ [x])"
      using mem by auto
    show ?thesis unfolding step winnerInv_def fst_conv snd_conv
      using lt le ws seen by simp
  qed
qed

lemma winnerInv_foldl: "winnerInv xs (foldl winnerStep (- 1, []) xs)"
proof (induction xs rule: rev_induct)
  case Nil
  show ?case by (simp add: winnerInv_def)
next
  case (snoc x xs)
  then show ?case by (simp add: winnerInv_step)
qed

lemma determineWinner_filter:
  assumes nonempty: "playersMap r \<noteq> []"
    and nonneg: "\<forall>kv \<in> set (playersMap r). 0 \<le> points (snd kv)"
  shows "determineWinner r =
           map fst (filter (\<lambda>kv. points (snd kv) =
                                   Max ((\<lambda>kv. points (snd kv)) ` set (playersMap r)))
                      (playersMap r))"
proof -
  let ?xs = "playersMap r"
  let ?m = "fst (foldl winnerStep (- 1, []) ?xs)"
  from winnerInv_foldl [of ?xs]
  have le: "\<forall>kv \<in> set ?xs. points (snd kv) \<le> ?m"
    and mem: "?m = - 1 \<or> ?m \<in> (\<lambda>kv. points (snd kv)) ` set ?xs"
    and ws: "snd (foldl winnerStep (- 1, []) ?xs) =
               map fst (filter (\<lambda>kv. points (snd kv) = ?m) ?xs)"
    by (simp_all add: winnerInv_def)
  from nonempty obtain kv0 where kv0: "kv0 \<in> set ?xs" by (cases ?xs) auto
  from kv0 nonneg have "0 \<le> points (snd kv0)" by blast
  moreover from kv0 le have "points (snd kv0) \<le> ?m" by blast
  ultimately have "0 \<le> ?m" by linarith
  with mem have in_img: "?m \<in> (\<lambda>kv. points (snd kv)) ` set ?xs" by simp
  have "Max ((\<lambda>kv. points (snd kv)) ` set ?xs) = ?m"
  proof (rule Max_eqI)
    show "finite ((\<lambda>kv. points (snd kv)) ` set ?xs)" by simp
    show "\<And>y. y \<in> (\<lambda>kv. points (snd kv)) ` set ?xs \<Longrightarrow> y \<le> ?m" using le by auto
    show "?m \<in> (\<lambda>kv. points (snd kv)) ` set ?xs" by (rule in_img)
  qed
  with ws show ?thesis by (simp add: determineWinner_def)
qed

text \<open>
  C8. For a room with at least one player, all scores non-negative (scores start at 0 and
  grow by word lengths), \<open>determineWinner\<close> returns exactly the players whose score
  equals the maximum score over all players: every tied player is in the result and no
  player with a lower score is.
\<close>

theorem determineWinner_max_set:
  assumes "playersMap r \<noteq> []"
    and "\<forall>kv \<in> set (playersMap r). 0 \<le> points (snd kv)"
  shows "set (determineWinner r) =
           {u. \<exists>p. (u, p) \<in> set (playersMap r) \<and>
                   points p = Max ((\<lambda>kv. points (snd kv)) ` set (playersMap r))}"
proof -
  have "set (determineWinner r) =
          fst ` {kv \<in> set (playersMap r).
                   points (snd kv) = Max ((\<lambda>kv. points (snd kv)) ` set (playersMap r))}"
    by (simp add: determineWinner_filter [OF assms])
  also have "\<dots> = {u. \<exists>p. (u, p) \<in> set (playersMap r) \<and>
                   points p = Max ((\<lambda>kv. points (snd kv)) ` set (playersMap r))}"
    by force
  finally show ?thesis .
qed

theorem determineWinner_max_set_witness:
  "set (determineWinner
          (sampleRoom\<lparr>playersMap := [(''alice'', \<lparr>socketId = ''sA'', points = 5\<rparr>),
                                      (''bob'', \<lparr>socketId = ''sB'', points = 8\<rparr>),
                                      (''carol'', \<lparr>socketId = ''sC'', points = 8\<rparr>)]\<rparr>))
     = {''bob'', ''carol''}"
proof -
  let ?ps = "[(''alice'', \<lparr>socketId = ''sA'', points = 5\<rparr>),
              (''bob'', \<lparr>socketId = ''sB'', points = 8\<rparr>),
              (''carol'', \<lparr>socketId = ''sC'', points = 8\<rparr>)]"
  let ?r = "sampleRoom\<lparr>playersMap := ?ps\<rparr>"
  have ps: "playersMap ?r = ?ps" by simp
  have ne: "playersMap ?r \<noteq> []" by simp
  have nn: "\<forall>kv \<in> set (playersMap ?r). 0 \<le> points (snd kv)" by simp
  have mx: "Max ((\<lambda>kv. points (snd kv)) ` set ?ps) = 8" by simp
  have "set (determineWinner ?r) =
          {u. \<exists>p. (u, p) \<in> set ?ps \<and> points p = 8}"
    using determineWinner_max_set [OF ne nn] unfolding ps mx .
  also have "\<dots> = {''bob'', ''carol''}"
  proof (rule set_eqI)
    fix u
    show "u \<in> {u. \<exists>p. (u, p) \<in> set ?ps \<and> points p = 8} \<longleftrightarrow> u \<in> {''bob'', ''carol''}"
      by (simp add: conj_disj_distribR ex_disj_distrib)
  qed
  finally show ?thesis .
qed

section \<open>Ending the game\<close>

text \<open>
  C1. \<open>endGame()\<close> on a game that has not ended: in the sample room (game in progress)
  the call does not return, it throws a ReferenceError before any field is written, and
  the game-end timer, whose callback is \<open>endGame\<close>, ends in the same uncaught error.
\<close>

theorem endGame_throws_in_progress:
  "isGameStarted sampleRoom \<and> \<not> isGameEnded sampleRoom \<and>
   endGame sampleRoom = Inl (ReferenceError ''username is not defined'') \<and>
   gameEndTimer sampleRoom = Some 1 \<and>
   fireTimer 1 sampleRoom = Inl (ReferenceError ''username is not defined'')"
  by (simp add: sampleRoom_eq sampleStarted_eq sampleLobby_eq endGame_def fireTimer_def)

section \<open>Turn order\<close>

text \<open>
  C3. The relation \<open>currentTurn = turnOrder[currentTurnIndex]\<close> in a game in progress:
  Alice, Bob and Carol play, Alice plays a word (the turn passes to Bob at index 1) and
  leaves. \<open>removePlayer\<close> takes Alice out of \<open>turnOrder\<close> and keeps the index, so the
  index now points at Carol while \<open>currentTurn\<close> is Bob.
\<close>

theorem removePlayer_breaks_turn_index:
  "reachable threeAfterLeave \<and>
   isGameStarted threeAfterLeave \<and> \<not> isGameEnded threeAfterLeave \<and>
   currentTurn threeAfterLeave = Some ''bob'' \<and>
   turnOrder threeAfterLeave = [''bob'', ''carol''] \<and>
   currentTurnIndex threeAfterLeave = Some 1 \<and>
   jsNth (turnOrder threeAfterLeave) (currentTurnIndex threeAfterLeave) = Some ''carol''"
  using reachable_threeAfterLeave
  by (simp add: threeAfterLeave_eq threeStarted_eq threeLobby_eq sampleLobby_eq)

section \<open>Dictionary load failure\<close>

text \<open>
  C7. When the word file cannot be read, the constructor stores in \<open>validWords\<close> the
  boolean returned by \<open>broadcast\<close>, after a room-wide \<open>errorOccurred\<close> and a
  \<open>redirectMainPage\<close>; \<open>isValidWord\<close> then throws a TypeError on every word (a string
  word included).
\<close>

theorem isValidWord_throws_after_load_failure:
  "validWords (newGameRoom creator rid sid now (Inl err)) = NotASet True \<and>
   isValidWord (newGameRoom creator rid sid now (Inl err)) (JsString word) =
     Inl (TypeError ''this.validWords.has is not a function'') \<and>
   emitted (newGameRoom creator rid sid now (Inl err)) =
     [(ToRoom rid, ''errorOccurred'',
         ErrorPayload ''An unexpected error occurred in the game'' (errToString err)),
      (ToRoom rid, ''redirectMainPage'',
         RedirectPayload ''There was an issue loading the word list, redirecting ...''
           (errToString err))]"
  by (simp add: newGameRoom_def loadWordList_def handleError_def broadcast_def emit_def
        isValidWord_def Let_def cong: let_weak_cong)

section \<open>The last word is a used word\<close>

lemma words_emit [simp]:
  "lastWord (emit t e p r) = lastWord r" "usedWordSet (emit t e p r) = usedWordSet r"
  by (simp_all add: emit_def)

lemma words_broadcast [simp]:
  "lastWord (snd (broadcast e p r)) = lastWord r"
  "usedWordSet (snd (broadcast e p r)) = usedWordSet r"
  by (simp_all add: broadcast_def)

lemma words_handleError [simp]:
  "lastWord (handleError err r) = lastWord r" "usedWordSet (handleError err r) = usedWordSet r"
  by (simp_all add: handleError_def)

lemma words_sendToPlayer [simp]:
  "lastWord (snd (sendToPlayer u e p r)) = lastWord r"
  "usedWordSet (snd (sendToPlayer u e p r)) = usedWordSet r"
  by (simp_all add: sendToPlayer_def split: option.splits)

lemma words_setTimeout [simp]:
  "lastWord (snd (setTimeout cb d r)) = lastWord r"
  "usedWordSet (snd (setTimeout cb d r)) = usedWordSet r"
  by (simp_all add: setTimeout_def)

lemma words_clearTimeout [simp]:
  "lastWord (clearTimeout h r) = lastWord r" "usedWordSet (clearTimeout h r) = usedWordSet r"
  by (simp_all add: clearTimeout_def)

lemma words_addPlayer [simp]:
  "lastWord (snd (addPlayer u sid r)) = lastWord r"
  "usedWordSet (snd (addPlayer u sid r)) = usedWordSet r"
  by (simp_all add: addPlayer_def)

lemma words_addPoints [simp]:
  "lastWord (snd (addPoints u n r)) = lastWord r"
  "usedWordSet (snd (addPoints u n r)) = usedWordSet r"
  by (simp_all add: addPoints_def split: option.splits)

lemma words_nextTurn [simp]:
  "lastWord (snd (nextTurn r)) = lastWord r" "usedWordSet (snd (nextTurn r)) = usedWordSet r"
  by (simp_all add: nextTurn_def Let_def)

lemma words_startRound [simp]:
  "lastWord (startRound r) = lastWord r" "usedWordSet (startRound r) = usedWordSet r"
  by (simp_all add: startRound_def Let_def split: option.splits)

lemma words_handleRoundTimeout [simp]:
  "lastWord (handleRoundTimeout r) = lastWord r"
  "usedWordSet (handleRoundTimeout r) = usedWordSet r"
  by (simp_all add: handleRoundTimeout_def Let_def)

lemma words_clearGameTimers [simp]:
  "lastWord (clearGameTimers r) = lastWord r" "usedWordSet (clearGameTimers r) = usedWordSet r"
  by (simp_all add: clearGameTimers_def Let_def split: option.splits)

lemma words_deleteRoom [simp]:
  "lastWord (deleteRoom why r) = lastWord r" "usedWordSet (deleteRoom why r) = usedWordSet r"
  by (simp_all add: deleteRoom_def Let_def split: option.splits)

lemma words_removePlayer [simp]:
  "lastWord (snd (removePlayer u r)) = lastWord r"
  "usedWordSet (snd (removePlayer u r)) = usedWordSet r"
  by (simp_all add: removePlayer_def endGame_def Let_def)

lemma words_validateWordPlay [simp]:
  "lastWord (snd (validateWordPlay u w r)) = lastWord r"
  "usedWordSet (snd (validateWordPlay u w r)) = usedWordSet r"
  by (simp_all add: validateWordPlay_def Let_def split: sum.splits option.splits jsWord.splits)

lemma words_addUsedWords:
  "lastWord (addUsedWords w r) = Some (toLowerCase w)"
  "usedWordSet (addUsedWords w r) = insert (toLowerCase w) (usedWordSet r)"
  by (simp_all add: addUsedWords_def)

lemma words_playWord:
  "(lastWord (snd (playWord u word r)) = lastWord r \<and>
    usedWordSet (snd (playWord u word r)) = usedWordSet r) \<or>
   (\<exists>w. word = JsString w \<and>
        lastWord (snd (playWord u word r)) = Some (toLowerCase w) \<and>
        usedWordSet (snd (playWord u word r)) = insert (toLowerCase w) (usedWordSet r))"
  by (simp add: playWord_def Let_def words_addUsedWords split: option.splits jsWord.splits)

lemma words_startGame:
  "(lastWord (snd (startGame shuffle r)) = lastWord r \<and>
    usedWordSet (snd (startGame shuffle r)) = usedWordSet r) \<or>
   (lastWord (snd (startGame shuffle r)) = None \<and>
    usedWordSet (snd (startGame shuffle r)) = {})"
  by (simp add: startGame_def Let_def initializeTurnOrder_def)

lemma words_newGameRoom:
  "lastWord (newGameRoom creator rid sid now file) = None"
  by (simp add: newGameRoom_def loadWordList_def Let_def split: sum.splits)

lemma words_fireTimer:
  assumes "fireTimer h r = Inr r'"
  shows "lastWord r' = lastWord r \<and> usedWordSet r' = usedWordSet r"
  using assms
  by (auto simp: fireTimer_def endGame_def Let_def split: option.splits callback.splits)

lemma lastWord_used_invariant:
  "reachable r \<Longrightarrow> \<forall>w. lastWord r = Some w \<longrightarrow> w \<in> usedWordSet r"
proof (induction rule: reachable.induct)
  case (created creator rid sid now wordFile)
  show ?case by (simp add: words_newGameRoom)
next
  case (played r username word)
  with words_playWord [of username word r] show ?case by auto
next
  case (started r shuffle)
  with words_startGame [of shuffle r] show ?case by auto
next
  case (ended r res)
  then show ?case by (simp add: endGame_def)
next
  case (fired r h r')
  with words_fireTimer [of h r r'] show ?case by simp
qed simp_all

text \<open>
  C10. In every reachable room, a \<open>lastWord\<close> that is set is a member of \<open>usedWordSet\<close>:
  \<open>addUsedWords\<close> writes both together, \<open>startGame\<close> clears both together, and no other
  method writes either.
\<close>

theorem lastWord_in_usedWordSet:
  "reachable r \<Longrightarrow> lastWord r = Some w \<Longrightarrow> w \<in> usedWordSet r"
  using lastWord_used_invariant by blast

theorem lastWord_in_usedWordSet_witness:
  "lastWord sampleRoom = Some ''apple'' \<and> ''apple'' \<in> usedWordSet sampleRoom"
proof -
  have lw: "lastWord sampleRoom = Some ''apple''"
    by (simp add: sampleRoom_eq)
  from lastWord_in_usedWordSet [OF reachable_sampleRoom lw] lw show ?thesis by simp
qed

section \<open>A player leaves a two-player game\<close>

lemma two_element_list:
  assumes "mset xs = {#a, b#}"
  shows "xs = [a, b] \<or> xs = [b, a]"
proof -
  from assms have "size (mset xs) = 2" by simp
  then have len: "length xs = 2" by simp
  then obtain x y where xs: "xs = [x, y]"
    by (cases xs; cases "tl xs") auto
  with assms have "{#x, y#} = {#a, b#}" by simp
  then have "(x = a \<and> y = b) \<or> (x = b \<and> y = a)"
    by (auto simp: add_eq_conv_diff split: if_splits)
  with xs show ?thesis by auto
qed

lemma removePlayer_keeps_game:
  assumes has: "mapHas (playersMap r) u"
    and someone: "currentTurn r = Some u \<longrightarrow> remove1 u (turnOrder r) \<noteq> []"
  shows "fst (removePlayer u r) \<and>
         playersMap (snd (removePlayer u r)) = mapDelete (playersMap r) u \<and>
         turnOrder (snd (removePlayer u r)) = remove1 u (turnOrder r) \<and>
         isGameStarted (snd (removePlayer u r)) = isGameStarted r \<and>
         isGameEnded (snd (removePlayer u r)) = isGameEnded r \<and>
         isRoomActive (snd (removePlayer u r)) = isRoomActive r \<and>
         pending (snd (removePlayer u r)) = pending r \<and>
         roundTimer (snd (removePlayer u r)) = roundTimer r \<and>
         gameEndTimer (snd (removePlayer u r)) = gameEndTimer r"
proof (cases "currentTurn r = Some u")
  case True
  with someone have rest: "remove1 u (turnOrder r) \<noteq> []" by simp
  have notin: "u \<notin> set (turnOrder r) \<Longrightarrow> turnOrder r \<noteq> []"
    using rest by (simp add: remove1_idem)
  show ?thesis
    using has rest notin
    by (simp add: removePlayer_def Let_def broadcast_def emit_def remove1_idem)
next
  case False
  then show ?thesis
    using has
    by (simp add: removePlayer_def Let_def remove1_idem)
qed

text \<open>
  C2 (as the code has it). In a game in progress with exactly two players,
  \<open>removePlayer\<close> on either player returns true, leaves the other player alone in
  \<open>playersMap\<close> and takes the leaver out of \<open>turnOrder\<close> (which becomes the single
  remaining player when the turn order was the two players); the game is not ended
  (\<open>isGameStarted\<close> stays true, \<open>isGameEnded\<close> false, \<open>isRoomActive\<close> unchanged) and the
  timers are left as they were. This holds whenever the leaver does not hold the turn
  or some identity remains in \<open>turnOrder\<close> after the removal.
\<close>

theorem removePlayer_two_players_keeps_game:
  assumes started: "isGameStarted r" and running: "\<not> isGameEnded r"
    and keys: "mapKeys (playersMap r) = [a, b]" and ab: "a \<noteq> b"
    and u: "u = a \<or> u = b"
    and someone: "currentTurn r = Some u \<longrightarrow> remove1 u (turnOrder r) \<noteq> []"
  shows "fst (removePlayer u r) \<and>
         mapKeys (playersMap (snd (removePlayer u r))) = [if u = a then b else a] \<and>
         turnOrder (snd (removePlayer u r)) = remove1 u (turnOrder r) \<and>
         (mset (turnOrder r) = {#a, b#} \<longrightarrow>
            turnOrder (snd (removePlayer u r)) = [if u = a then b else a]) \<and>
         isGameStarted (snd (removePlayer u r)) \<and>
         \<not> isGameEnded (snd (removePlayer u r)) \<and>
         isRoomActive (snd (removePlayer u r)) = isRoomActive r \<and>
         pending (snd (removePlayer u r)) = pending r \<and>
         roundTimer (snd (removePlayer u r)) = roundTimer r \<and>
         gameEndTimer (snd (removePlayer u r)) = gameEndTimer r"
proof -
  from keys obtain pa pb where ps: "playersMap r = [(a, pa), (b, pb)]"
    by (auto simp: mapKeys_def map_eq_Cons_conv)
  from ps u have has: "mapHas (playersMap r) u"
    by (auto simp: mapHas_def)
  have both: "remove1 u (turnOrder r) = [if u = a then b else a]"
    if order: "mset (turnOrder r) = {#a, b#}"
  proof -
    from order have "turnOrder r = [a, b] \<or> turnOrder r = [b, a]"
      by (rule two_element_list)
    with u ab show ?thesis by auto
  qed
  from ps u ab have del: "mapKeys (mapDelete (playersMap r) u) = [if u = a then b else a]"
    by (auto simp: mapKeys_def mapDelete_def)
  from removePlayer_keeps_game [OF has someone] del started running both
  show ?thesis by simp
qed

theorem removePlayer_two_players_keeps_game_witness:
  "fst (removePlayer ''alice'' sampleRoom) \<and>
   mapKeys (playersMap (snd (removePlayer ''alice'' sampleRoom))) = [''bob''] \<and>
   turnOrder (snd (removePlayer ''alice'' sampleRoom)) = [''bob''] \<and>
   isGameStarted (snd (removePlayer ''alice'' sampleRoom)) \<and>
   \<not> isGameEnded (snd (removePlayer ''alice'' sampleRoom)) \<and>
   pending (snd (removePlayer ''alice'' sampleRoom)) =
     [(0, 3600000, DeleteRoomExpired), (1, 1800000, EndGameCallback),
      (3, 30000, RoundTimeoutCallback)] \<and>
   mapKeys (playersMap creatorLeftStarted) = [''bob'', ''carol''] \<and>
   turnOrder creatorLeftStarted = [''alice'', ''bob'', ''carol''] \<and>
   fst (removePlayer ''bob'' creatorLeftStarted) \<and>
   mapKeys (playersMap (snd (removePlayer ''bob'' creatorLeftStarted))) = [''carol''] \<and>
   turnOrder (snd (removePlayer ''bob'' creatorLeftStarted)) = [''alice'', ''carol''] \<and>
   isGameStarted (snd (removePlayer ''bob'' creatorLeftStarted)) \<and>
   \<not> isGameEnded (snd (removePlayer ''bob'' creatorLeftStarted))"
proof -
  have started: "isGameStarted sampleRoom" and running: "\<not> isGameEnded sampleRoom"
    and keys: "mapKeys (playersMap sampleRoom) = [''alice'', ''bob'']"
    and order: "turnOrder sampleRoom = [''alice'', ''bob'']"
    and turn: "currentTurn sampleRoom = Some ''bob''"
    and pend: "pending sampleRoom =
      [(0, 3600000, DeleteRoomExpired), (1, 1800000, EndGameCallback),
       (3, 30000, RoundTimeoutCallback)]"
    by (simp_all add: sampleRoom_eq sampleStarted_eq sampleLobby_eq mapKeys_def)
  have ab: "''alice'' \<noteq> ''bob''" by simp
  have u: "''alice'' = ''alice'' \<or> ''alice'' = ''bob''" by simp
  have someone: "currentTurn sampleRoom = Some ''alice'' \<longrightarrow>
                   remove1 ''alice'' (turnOrder sampleRoom) \<noteq> []"
    by (simp add: turn)
  from removePlayer_two_players_keeps_game [OF started running keys ab u someone] pend order
  have first: "fst (removePlayer ''alice'' sampleRoom) \<and>
     mapKeys (playersMap (snd (removePlayer ''alice'' sampleRoom))) = [''bob''] \<and>
     turnOrder (snd (removePlayer ''alice'' sampleRoom)) = [''bob''] \<and>
     isGameStarted (snd (removePlayer ''alice'' sampleRoom)) \<and>
     \<not> isGameEnded (snd (removePlayer ''alice'' sampleRoom)) \<and>
     pending (snd (removePlayer ''alice'' sampleRoom)) =
       [(0, 3600000, DeleteRoomExpired), (1, 1800000, EndGameCallback),
        (3, 30000, RoundTimeoutCallback)]"
    by simp
  have started': "isGameStarted creatorLeftStarted"
    and running': "\<not> isGameEnded creatorLeftStarted"
    and keys': "mapKeys (playersMap creatorLeftStarted) = [''bob'', ''carol'']"
    and order': "turnOrder creatorLeftStarted = [''alice'', ''bob'', ''carol'']"
    and turn': "currentTurn creatorLeftStarted = Some ''alice''"
    by (simp_all add: creatorLeftStarted_eq creatorLeft_eq sampleLobby_eq mapKeys_def)
  have bc: "''bob'' \<noteq> ''carol''" by simp
  have u': "''bob'' = ''bob'' \<or> ''bob'' = ''carol''" by simp
  have someone': "currentTurn creatorLeftStarted = Some ''bob'' \<longrightarrow>
                    remove1 ''bob'' (turnOrder creatorLeftStarted) \<noteq> []"
    by (simp add: turn')
  from removePlayer_two_players_keeps_game [OF started' running' keys' bc u' someone'] order'
  have second: "fst (removePlayer ''bob'' creatorLeftStarted) \<and>
     mapKeys (playersMap (snd (removePlayer ''bob'' creatorLeftStarted))) = [''carol''] \<and>
     turnOrder (snd (removePlayer ''bob'' creatorLeftStarted)) = [''alice'', ''carol''] \<and>
     isGameStarted (snd (removePlayer ''bob'' creatorLeftStarted)) \<and>
     \<not> isGameEnded (snd (removePlayer ''bob'' creatorLeftStarted))"
    by simp
  from first second keys' order' show ?thesis by blast
qed

text \<open>
  C2 as stated fails: Bob, who holds the turn, leaves the two-player sample game. One
  player remains, the game is still in progress and the round timer armed for Bob is
  still pending.
\<close>

theorem removePlayer_two_players_counterexample:
  "isGameStarted sampleRoom \<and> \<not> isGameEnded sampleRoom \<and>
   mapKeys (playersMap sampleRoom) = [''alice'', ''bob''] \<and>
   fst (removePlayer ''bob'' sampleRoom) \<and>
   mapKeys (playersMap (snd (removePlayer ''bob'' sampleRoom))) = [''alice''] \<and>
   isGameStarted (snd (removePlayer ''bob'' sampleRoom)) \<and>
   \<not> isGameEnded (snd (removePlayer ''bob'' sampleRoom)) \<and>
   isRoomActive (snd (removePlayer ''bob'' sampleRoom)) \<and>
   roundTimer (snd (removePlayer ''bob'' sampleRoom)) = Some 3 \<and>
   pending (snd (removePlayer ''bob'' sampleRoom)) =
     [(0, 3600000, DeleteRoomExpired), (1, 1800000, EndGameCallback),
      (3, 30000, RoundTimeoutCallback)]"
  unfolding sampleRoom_eq sampleStarted_eq sampleLobby_eq
  by (simp add: room_eval cong: let_weak_cong)

section \<open>Notifications as log extensions\<close>

lemma broadcast_snd:
  "snd (broadcast e p r) = r\<lparr>emitted := emitted r @ [(ToRoom (roomId r), e, p)]\<rparr>"
  by (simp add: broadcast_def emit_def)

lemma handleError_eq:
  "handleError err r =
     r\<lparr>emitted := emitted r @
         [(ToRoom (roomId r), ''errorOccurred'',
           ErrorPayload ''An unexpected error occurred in the game'' (errToString err))]\<rparr>"
  by (simp add: handleError_def broadcast_snd)

lemma sendToPlayer_snd:
  "snd (sendToPlayer u e p r) =
     r\<lparr>emitted := emitted r @
         [case getUserSocket r u of
            None \<Rightarrow>
              (ToRoom (roomId r), ''errorOccurred'',
               ErrorPayload ''An unexpected error occurred in the game''
                 (errToString (Error (''No socket was found in the player map for player '' @
                                       showName u))))
          | Some sid \<Rightarrow>
              if sid = [] then
                (ToRoom (roomId r), ''errorOccurred'',
                 ErrorPayload ''An unexpected error occurred in the game''
                   (errToString (Error (''No socket was found in the player map for player '' @
                                         showName u))))
              else (ToSocket sid, e, p)]\<rparr>"
  by (simp add: sendToPlayer_def handleError_eq emit_def split: option.splits)

lemma startRound_frame:
  "playersMap (startRound r) = playersMap r"
  "turnOrder (startRound r) = turnOrder r"
  "creatorUsername (startRound r) = creatorUsername r"
  by (simp_all add: startRound_def sendToPlayer_snd setTimeout_def clearTimeout_def Let_def
        split: option.splits)

section \<open>Turn order at game start\<close>

lemma mset_filter_creator:
  assumes "distinct xs" and "c \<in> set xs"
  shows "add_mset c (mset (filter (\<lambda>u. u \<noteq> c) xs)) = mset xs"
  using assms
proof (induction xs)
  case Nil
  then show ?case by simp
next
  case (Cons x xs)
  show ?case
  proof (cases "x = c")
    case True
    with Cons.prems have "c \<notin> set xs" by simp
    then have "filter (\<lambda>u. u \<noteq> c) xs = xs" by (auto simp: filter_id_conv)
    with True show ?thesis by simp
  next
    case False
    with Cons show ?thesis by simp
  qed
qed

lemma startGame_fst:
  "fst (startGame shuffle r) \<longleftrightarrow> \<not> isGameStarted r \<and> 2 \<le> length (playersMap r)"
  by (auto simp: startGame_def Let_def)

lemma startGame_success:
  assumes "fst (startGame shuffle r)"
  shows "playersMap (snd (startGame shuffle r)) = playersMap r \<and>
         creatorUsername (snd (startGame shuffle r)) = creatorUsername r \<and>
         turnOrder (snd (startGame shuffle r)) =
           creatorUsername r #
           shuffle (filter (\<lambda>u. u \<noteq> creatorUsername r) (mapKeys (playersMap r)))"
proof -
  from assms have a: "\<not> isGameStarted r" and b: "\<not> length (playersMap r) < 2"
    by (auto simp: startGame_def split: if_splits)
  show ?thesis
    using a b
    by (simp add: startGame_def startRound_frame broadcast_snd initializeTurnOrder_def
          setTimeout_def Let_def)
qed

text \<open>
  C4 (as the code has it). When \<open>startGame\<close> succeeds, with the sort returning a
  permutation of its input and the keys of \<open>playersMap\<close> distinct, \<open>turnOrder\<close> has the
  creator at index 0, followed by a permutation of the current players other than the
  creator. It is a permutation of exactly the current player set when the creator is
  among the players; when the creator is not, it is the creator followed by all current
  players.
\<close>

theorem startGame_turnOrder_creator_first:
  assumes perm: "\<And>xs. mset (shuffle xs) = mset xs"
    and ok: "fst (startGame shuffle r)"
    and keys: "distinct (mapKeys (playersMap r))"
  shows "jsNth (turnOrder (snd (startGame shuffle r))) (Some 0) = Some (creatorUsername r) \<and>
         mset (tl (turnOrder (snd (startGame shuffle r)))) =
           mset (filter (\<lambda>u. u \<noteq> creatorUsername r)
                   (mapKeys (playersMap (snd (startGame shuffle r))))) \<and>
         mset (turnOrder (snd (startGame shuffle r))) =
           (if creatorUsername r \<in> set (mapKeys (playersMap (snd (startGame shuffle r))))
            then mset (mapKeys (playersMap (snd (startGame shuffle r))))
            else add_mset (creatorUsername r)
                   (mset (mapKeys (playersMap (snd (startGame shuffle r))))))"
proof -
  let ?c = "creatorUsername r"
  let ?ks = "mapKeys (playersMap r)"
  from startGame_success [OF ok]
  have ps: "playersMap (snd (startGame shuffle r)) = playersMap r"
    and to: "turnOrder (snd (startGame shuffle r)) = ?c # shuffle (filter (\<lambda>u. u \<noteq> ?c) ?ks)"
    by simp_all
  have rest: "mset (shuffle (filter (\<lambda>u. u \<noteq> ?c) ?ks)) = mset (filter (\<lambda>u. u \<noteq> ?c) ?ks)"
    by (rule perm)
  have all: "mset (?c # shuffle (filter (\<lambda>u. u \<noteq> ?c) ?ks)) =
               (if ?c \<in> set ?ks then mset ?ks else add_mset ?c (mset ?ks))"
  proof (cases "?c \<in> set ?ks")
    case True
    with mset_filter_creator [OF keys True] rest show ?thesis by simp
  next
    case False
    then have "filter (\<lambda>u. u \<noteq> ?c) ?ks = ?ks" by (auto simp: filter_id_conv)
    with False rest show ?thesis by simp
  qed
  show ?thesis unfolding ps to using rest all by simp
qed

theorem startGame_turnOrder_creator_first_witness:
  "turnOrder (snd (startGame rev threeLobby)) = [''alice'', ''carol'', ''bob''] \<and>
   jsNth (turnOrder (snd (startGame rev threeLobby))) (Some 0) = Some ''alice'' \<and>
   mset (turnOrder (snd (startGame rev threeLobby))) = {#''alice'', ''bob'', ''carol''#}"
proof -
  have perm: "\<And>xs :: string list. mset (rev xs) = mset xs" by simp
  have ok: "fst (startGame rev threeLobby)"
    by (simp add: threeLobby_eq sampleLobby_eq startGame_fst)
  have keys: "distinct (mapKeys (playersMap threeLobby))"
    by (simp add: threeLobby_eq mapKeys_def)
  have c: "creatorUsername threeLobby = ''alice''"
    by (simp add: threeLobby_eq sampleLobby_eq)
  have ks: "mapKeys (playersMap threeLobby) = [''alice'', ''bob'', ''carol'']"
    by (simp add: threeLobby_eq mapKeys_def)
  have ps: "mapKeys (playersMap (snd (startGame rev threeLobby))) = [''alice'', ''bob'', ''carol'']"
    using startGame_success [OF ok] ks by simp
  have to: "turnOrder (snd (startGame rev threeLobby)) = [''alice'', ''carol'', ''bob'']"
    using startGame_success [OF ok] by (simp add: c ks)
  from startGame_turnOrder_creator_first [of rev threeLobby, OF perm ok keys]
  show ?thesis unfolding to c ps by simp
qed

text \<open>
  C4 as stated fails when the creator has left: Alice creates the room, Bob and Carol
  join, Alice leaves the lobby, and the game starts. The turn order begins with Alice,
  who is not a player, so it is not a permutation of the player set.
\<close>

theorem startGame_absent_creator_counterexample:
  "fst (startGame id creatorLeft) \<and>
   mapKeys (playersMap (snd (startGame id creatorLeft))) = [''bob'', ''carol''] \<and>
   turnOrder (snd (startGame id creatorLeft)) = [''alice'', ''bob'', ''carol''] \<and>
   mset (turnOrder (snd (startGame id creatorLeft))) \<noteq>
     mset (mapKeys (playersMap (snd (startGame id creatorLeft))))"
proof -
  have ok: "fst (startGame id creatorLeft)"
    by (simp add: creatorLeft_eq sampleLobby_eq startGame_fst)
  from startGame_success [OF ok] ok show ?thesis
    by (simp add: creatorLeft_eq sampleLobby_eq mapKeys_def)
qed

section \<open>Order of the validation checks\<close>

text \<open>
  C5. With a loaded dictionary, \<open>validateWordPlay\<close> changes nothing and answers in a
  fixed order: the turn check first (whatever the word is), then the dictionary check,
  then the first-word exemption (an unset or empty \<open>lastWord\<close> accepts the word with
  reason "First word", whatever the chain letter and the used words), then the chain
  letter, then reuse: a word that fails both the chain and the reuse condition is
  rejected for its starting letter. A word that is not a string also gets the turn check
  first; from the turn holder it is rejected through the \<open>catch\<close>.
\<close>

theorem validateWordPlay_check_order:
  assumes dict: "validWords r = WordSet D"
  shows
    "(currentTurn r \<noteq> Some u \<longrightarrow>
        validateWordPlay u word r = (\<lparr>valid = False, reason = ''Not your turn''\<rparr>, r)) \<and>
     (currentTurn r = Some u \<and> trim (toLowerCase w) \<notin> D \<longrightarrow>
        validateWordPlay u (JsString w) r =
          (\<lparr>valid = False, reason = ''Not a valid word''\<rparr>, r)) \<and>
     (currentTurn r = Some u \<and> trim (toLowerCase w) \<in> D \<and>
      (lastWord r = None \<or> lastWord r = Some []) \<longrightarrow>
        validateWordPlay u (JsString w) r = (\<lparr>valid = True, reason = ''First word''\<rparr>, r)) \<and>
     (currentTurn r = Some u \<and> trim (toLowerCase w) \<in> D \<and>
      lastWord r = Some lw \<and> lw \<noteq> [] \<and>
      toLowerCase (charAt0 w) \<noteq> toLowerCase (sliceLast lw) \<longrightarrow>
        validateWordPlay u (JsString w) r =
          (\<lparr>valid = False,
            reason = ''Word must start with '' @ [CHR 0x27] @ toLowerCase (sliceLast lw) @
                     [CHR 0x27]\<rparr>, r)) \<and>
     (currentTurn r = Some u \<and> trim (toLowerCase w) \<in> D \<and>
      lastWord r = Some lw \<and> lw \<noteq> [] \<and>
      toLowerCase (charAt0 w) = toLowerCase (sliceLast lw) \<and>
      toLowerCase w \<in> usedWordSet r \<longrightarrow>
        validateWordPlay u (JsString w) r =
          (\<lparr>valid = False, reason = ''Word has been used before''\<rparr>, r)) \<and>
     (currentTurn r = Some u \<and> trim (toLowerCase w) \<in> D \<and>
      lastWord r = Some lw \<and> lw \<noteq> [] \<and>
      toLowerCase (charAt0 w) = toLowerCase (sliceLast lw) \<and>
      toLowerCase w \<notin> usedWordSet r \<longrightarrow>
        validateWordPlay u (JsString w) r = (\<lparr>valid = True, reason = ''Valid word''\<rparr>, r)) \<and>
     (currentTurn r = Some u \<longrightarrow>
        validateWordPlay u (NotAString msg) r =
          (\<lparr>valid = False, reason = ''An unexpected error occurred during word validation''\<rparr>,
           handleError (TypeError msg) r))"
proof -
  have inDictionary: "isValidWord r (JsString w) = Inr (trim (toLowerCase w) \<in> D)"
    using dict by (simp add: isValidWord_def)
  have notAString: "isValidWord r (NotAString msg) = Inl (TypeError msg)"
    by (simp add: isValidWord_def)
  have turn: "currentTurn r \<noteq> Some u \<longrightarrow>
        validateWordPlay u word r = (\<lparr>valid = False, reason = ''Not your turn''\<rparr>, r)"
    by (simp add: validateWordPlay_def isPlayerTurn_def)
  have rest: "(currentTurn r = Some u \<and> trim (toLowerCase w) \<notin> D \<longrightarrow>
        validateWordPlay u (JsString w) r =
          (\<lparr>valid = False, reason = ''Not a valid word''\<rparr>, r)) \<and>
     (currentTurn r = Some u \<and> trim (toLowerCase w) \<in> D \<and>
      (lastWord r = None \<or> lastWord r = Some []) \<longrightarrow>
        validateWordPlay u (JsString w) r = (\<lparr>valid = True, reason = ''First word''\<rparr>, r)) \<and>
     (currentTurn r = Some u \<and> trim (toLowerCase w) \<in> D \<and>
      lastWord r = Some lw \<and> lw \<noteq> [] \<and>
      toLowerCase (charAt0 w) \<noteq> toLowerCase (sliceLast lw) \<longrightarrow>
        validateWordPlay u (JsString w) r =
          (\<lparr>valid = False,
            reason = ''Word must start with '' @ [CHR 0x27] @ toLowerCase (sliceLast lw) @
                     [CHR 0x27]\<rparr>, r)) \<and>
     (currentTurn r = Some u \<and> trim (toLowerCase w) \<in> D \<and>
      lastWord r = Some lw \<and> lw \<noteq> [] \<and>
      toLowerCase (charAt0 w) = toLowerCase (sliceLast lw) \<and>
      toLowerCase w \<in> usedWordSet r \<longrightarrow>
        validateWordPlay u (JsString w) r =
          (\<lparr>valid = False, reason = ''Word has been used before''\<rparr>, r)) \<and>
     (currentTurn r = Some u \<and> trim (toLowerCase w) \<in> D \<and>
      lastWord r = Some lw \<and> lw \<noteq> [] \<and>
      toLowerCase (charAt0 w) = toLowerCase (sliceLast lw) \<and>
      toLowerCase w \<notin> usedWordSet r \<longrightarrow>
        validateWordPlay u (JsString w) r = (\<lparr>valid = True, reason = ''Valid word''\<rparr>, r))"
    by (auto simp: validateWordPlay_def isPlayerTurn_def inDictionary Let_def)
  have thrown: "currentTurn r = Some u \<longrightarrow>
        validateWordPlay u (NotAString msg) r =
          (\<lparr>valid = False, reason = ''An unexpected error occurred during word validation''\<rparr>,
           handleError (TypeError msg) r)"
    by (simp add: validateWordPlay_def isPlayerTurn_def notAString)
  from turn rest thrown show ?thesis by blast
qed

lemma sampleRoom_validation_facts:
  "validWords sampleRoom = WordSet {''apple'', ''elephant'', ''eagle'', ''tiger''}"
  "currentTurn sampleRoom = Some ''bob''"
  "lastWord sampleRoom = Some ''apple''"
  "usedWordSet sampleRoom = {''apple''}"
  "validWords sampleStarted = WordSet {''apple'', ''elephant'', ''eagle'', ''tiger''}"
  "currentTurn sampleStarted = Some ''alice''"
  "lastWord sampleStarted = None"
  by (simp_all add: sampleRoom_eq sampleStarted_eq sampleLobby_eq)

lemmas string_eval =
  toLowerCase_def lower_char_def upperCaseLetters_def lowerCaseLetters_def trim_def
  is_space_def charAt0_def sliceLast_def

theorem validateWordPlay_check_order_witness:
  "validateWordPlay ''alice'' (JsString ''elephant'') sampleRoom =
     (\<lparr>valid = False, reason = ''Not your turn''\<rparr>, sampleRoom) \<and>
   validateWordPlay ''bob'' (JsString ''zebra'') sampleRoom =
     (\<lparr>valid = False, reason = ''Not a valid word''\<rparr>, sampleRoom) \<and>
   validateWordPlay ''alice'' (JsString ''Apple'') sampleStarted =
     (\<lparr>valid = True, reason = ''First word''\<rparr>, sampleStarted) \<and>
   validateWordPlay ''bob'' (JsString ''apple'') sampleRoom =
     (\<lparr>valid = False, reason = ''Word must start with '' @ [CHR 0x27] @ ''e'' @ [CHR 0x27]\<rparr>,
      sampleRoom) \<and>
   validateWordPlay ''bob'' (JsString ''Elephant'') sampleRoom =
     (\<lparr>valid = True, reason = ''Valid word''\<rparr>, sampleRoom)"
proof -
  note d = sampleRoom_validation_facts(1) and d0 = sampleRoom_validation_facts(5)
  have 1: "validateWordPlay ''alice'' (JsString ''elephant'') sampleRoom =
             (\<lparr>valid = False, reason = ''Not your turn''\<rparr>, sampleRoom)"
    using validateWordPlay_check_order [OF d,
        where u = "''alice''" and word = "JsString ''elephant''"]
    by (simp add: sampleRoom_validation_facts)
  have 2: "validateWordPlay ''bob'' (JsString ''zebra'') sampleRoom =
             (\<lparr>valid = False, reason = ''Not a valid word''\<rparr>, sampleRoom)"
    using validateWordPlay_check_order [OF d, where u = "''bob''" and w = "''zebra''"]
    by (simp add: sampleRoom_validation_facts string_eval)
  have 3: "validateWordPlay ''alice'' (JsString ''Apple'') sampleStarted =
             (\<lparr>valid = True, reason = ''First word''\<rparr>, sampleStarted)"
    using validateWordPlay_check_order [OF d0, where u = "''alice''" and w = "''Apple''"]
    by (simp add: sampleRoom_validation_facts string_eval)
  have 4: "validateWordPlay ''bob'' (JsString ''apple'') sampleRoom =
             (\<lparr>valid = False,
               reason = ''Word must start with '' @ [CHR 0x27] @ ''e'' @ [CHR 0x27]\<rparr>,
              sampleRoom)"
    using validateWordPlay_check_order [OF d,
        where u = "''bob''" and w = "''apple''" and lw = "''apple''"]
    by (simp add: sampleRoom_validation_facts string_eval)
  have 5: "validateWordPlay ''bob'' (JsString ''Elephant'') sampleRoom =
             (\<lparr>valid = True, reason = ''Valid word''\<rparr>, sampleRoom)"
    using validateWordPlay_check_order [OF d,
        where u = "''bob''" and w = "''Elephant''" and lw = "''apple''"]
    by (simp add: sampleRoom_validation_facts string_eval)
  from 1 2 3 4 5 show ?thesis by blast
qed

section \<open>Rejected word plays\<close>

lemma validateWordPlay_snd:
  "snd (validateWordPlay u word r) =
     (case isValidWord r word of
        Inl err \<Rightarrow> if isPlayerTurn r u then handleError err r else r
      | Inr b \<Rightarrow> r)"
  by (simp add: validateWordPlay_def isValidWord_def Let_def
        split: sum.splits option.splits jsWord.splits wordList.splits)

lemma validateWordPlay_keeps_fields:
  "(snd (validateWordPlay u word r))\<lparr>emitted := es\<rparr> = r\<lparr>emitted := es\<rparr>"
  "playersMap (snd (validateWordPlay u word r)) = playersMap r"
  "roomId (snd (validateWordPlay u word r)) = roomId r"
  by (simp_all add: validateWordPlay_snd handleError_eq split: sum.splits)

lemma validateWordPlay_thrown:
  assumes "currentTurn r = Some u" and "isValidWord r word = Inl err"
  shows "validateWordPlay u word r =
           (\<lparr>valid = False, reason = ''An unexpected error occurred during word validation''\<rparr>,
            handleError err r)"
  using assms by (simp add: validateWordPlay_def isPlayerTurn_def)

lemma validateWordPlay_non_string:
  "\<not> valid (fst (validateWordPlay u (NotAString msg) r))"
  by (simp add: validateWordPlay_def isValidWord_def)

lemma playWord_rejected_eq:
  assumes "\<not> valid (fst (validateWordPlay u word r))"
  shows "playWord u word r =
           (False, snd (sendToPlayer (Some u) ''wordPlayFailed''
                           (Reason (reason (fst (validateWordPlay u word r))))
                           (snd (validateWordPlay u word r))))"
  using assms by (simp add: playWord_def Let_def)

text \<open>
  C6 (as the code has it). When \<open>validateWordPlay\<close> fails, \<open>playWord\<close> returns false and
  leaves every field of the room as it was; only notifications are emitted. When the
  validation did not go through its \<open>catch\<close> (it is not the submitter's turn, or the
  dictionary is loaded and the word is a string), a submitter who is a player of the room
  with a socket gets the one notification, \<open>wordPlayFailed\<close> with the reason, and a
  submitter who is not a player of the room gets nothing, \<open>sendToPlayer\<close> broadcasting
  \<open>errorOccurred\<close> to the room instead. When the validation of the turn holder's word
  threw (the word is not a string, or \<open>validWords\<close> is not a set) and the turn holder is
  a player of the room with a socket, \<open>errorOccurred\<close> is broadcast to the room before
  \<open>wordPlayFailed\<close> is sent to the submitter.
\<close>

theorem playWord_rejected_keeps_state:
  assumes rejected: "\<not> valid (fst (validateWordPlay u word r))"
  shows "fst (playWord u word r) = False \<and>
         (snd (playWord u word r))\<lparr>emitted := emitted r\<rparr> = r \<and>
         ((currentTurn r \<noteq> Some u \<or> (validWords r = WordSet D \<and> word = JsString w)) \<and>
          map_of (playersMap r) u = Some p \<and> socketId p \<noteq> [] \<longrightarrow>
            emitted (snd (playWord u word r)) =
              emitted r @ [(ToSocket (socketId p), ''wordPlayFailed'',
                            Reason (reason (fst (validateWordPlay u word r))))]) \<and>
         ((currentTurn r \<noteq> Some u \<or> (validWords r = WordSet D \<and> word = JsString w)) \<and>
          map_of (playersMap r) u = None \<longrightarrow>
            emitted (snd (playWord u word r)) =
              emitted r @ [(ToRoom (roomId r), ''errorOccurred'',
                            ErrorPayload ''An unexpected error occurred in the game''
                              (errToString (Error
                                 (''No socket was found in the player map for player '' @ u))))]) \<and>
         (currentTurn r = Some u \<and> isValidWord r word = Inl err \<and>
          map_of (playersMap r) u = Some p \<and> socketId p \<noteq> [] \<longrightarrow>
            emitted (snd (playWord u word r)) =
              emitted r @ [(ToRoom (roomId r), ''errorOccurred'',
                            ErrorPayload ''An unexpected error occurred in the game''
                              (errToString err)),
                           (ToSocket (socketId p), ''wordPlayFailed'',
                            Reason ''An unexpected error occurred during word validation'')])"
proof -
  note eq = playWord_rejected_eq [OF rejected]
  have 1: "fst (playWord u word r) = False"
    by (simp add: eq)
  have 2: "(snd (playWord u word r))\<lparr>emitted := emitted r\<rparr> = r"
    by (simp add: eq sendToPlayer_snd validateWordPlay_keeps_fields)
  have quiet: "snd (validateWordPlay u word r) = r"
    if "currentTurn r \<noteq> Some u \<or> (validWords r = WordSet D \<and> word = JsString w)"
    using that
    by (auto simp: validateWordPlay_snd isValidWord_def isPlayerTurn_def
          split: sum.splits jsWord.splits wordList.splits)
  have 3: "(currentTurn r \<noteq> Some u \<or> (validWords r = WordSet D \<and> word = JsString w)) \<and>
          map_of (playersMap r) u = Some p \<and> socketId p \<noteq> [] \<longrightarrow>
            emitted (snd (playWord u word r)) =
              emitted r @ [(ToSocket (socketId p), ''wordPlayFailed'',
                            Reason (reason (fst (validateWordPlay u word r))))]"
  proof (intro impI, elim conjE)
    assume c: "currentTurn r \<noteq> Some u \<or> (validWords r = WordSet D \<and> word = JsString w)"
      and p: "map_of (playersMap r) u = Some p" "socketId p \<noteq> []"
    show "emitted (snd (playWord u word r)) =
              emitted r @ [(ToSocket (socketId p), ''wordPlayFailed'',
                            Reason (reason (fst (validateWordPlay u word r))))]"
      using p by (simp add: eq sendToPlayer_snd quiet [OF c] getUserSocket_def)
  qed
  have 4: "(currentTurn r \<noteq> Some u \<or> (validWords r = WordSet D \<and> word = JsString w)) \<and>
          map_of (playersMap r) u = None \<longrightarrow>
            emitted (snd (playWord u word r)) =
              emitted r @ [(ToRoom (roomId r), ''errorOccurred'',
                            ErrorPayload ''An unexpected error occurred in the game''
                              (errToString (Error
                                 (''No socket was found in the player map for player '' @ u))))]"
  proof (intro impI, elim conjE)
    assume c: "currentTurn r \<noteq> Some u \<or> (validWords r = WordSet D \<and> word = JsString w)"
      and p: "map_of (playersMap r) u = None"
    show "emitted (snd (playWord u word r)) =
              emitted r @ [(ToRoom (roomId r), ''errorOccurred'',
                            ErrorPayload ''An unexpected error occurred in the game''
                              (errToString (Error
                                 (''No socket was found in the player map for player '' @ u))))]"
      using p by (simp add: eq sendToPlayer_snd quiet [OF c] getUserSocket_def)
  qed
  have 5: "currentTurn r = Some u \<and> isValidWord r word = Inl err \<and>
          map_of (playersMap r) u = Some p \<and> socketId p \<noteq> [] \<longrightarrow>
            emitted (snd (playWord u word r)) =
              emitted r @ [(ToRoom (roomId r), ''errorOccurred'',
                            ErrorPayload ''An unexpected error occurred in the game''
                              (errToString err)),
                           (ToSocket (socketId p), ''wordPlayFailed'',
                            Reason ''An unexpected error occurred during word validation'')]"
  proof (intro impI, elim conjE)
    assume t: "currentTurn r = Some u" and e: "isValidWord r word = Inl err"
      and p: "map_of (playersMap r) u = Some p" "socketId p \<noteq> []"
    show "emitted (snd (playWord u word r)) =
              emitted r @ [(ToRoom (roomId r), ''errorOccurred'',
                            ErrorPayload ''An unexpected error occurred in the game''
                              (errToString err)),
                           (ToSocket (socketId p), ''wordPlayFailed'',
                            Reason ''An unexpected error occurred during word validation'')]"
      using p
      by (simp add: eq sendToPlayer_snd validateWordPlay_thrown [OF t e] handleError_eq
            getUserSocket_def)
  qed
  from 1 2 3 4 5 show ?thesis by blast
qed

lemma sampleRoom_not_turn:
  "u \<noteq> ''bob'' \<Longrightarrow>
   validateWordPlay u word sampleRoom =
     (\<lparr>valid = False, reason = ''Not your turn''\<rparr>, sampleRoom)"
  by (simp add: validateWordPlay_def isPlayerTurn_def sampleRoom_eq)

lemma sampleRoom_bob_zebra:
  "validateWordPlay ''bob'' (JsString ''zebra'') sampleRoom =
     (\<lparr>valid = False, reason = ''Not a valid word''\<rparr>, sampleRoom)"
  by (simp add: validateWordPlay_def isPlayerTurn_def isValidWord_def
        sampleRoom_validation_facts string_eval)

theorem playWord_rejected_keeps_state_witness:
  "fst (playWord ''alice'' (JsString ''elephant'') sampleRoom) = False \<and>
   (snd (playWord ''alice'' (JsString ''elephant'') sampleRoom))\<lparr>emitted := emitted sampleRoom\<rparr> =
     sampleRoom \<and>
   emitted (snd (playWord ''alice'' (JsString ''elephant'') sampleRoom)) =
     emitted sampleRoom @ [(ToSocket ''sA'', ''wordPlayFailed'', Reason ''Not your turn'')] \<and>
   emitted (snd (playWord ''bob'' (JsString ''zebra'') sampleRoom)) =
     emitted sampleRoom @ [(ToSocket ''sB'', ''wordPlayFailed'', Reason ''Not a valid word'')] \<and>
   (snd (playWord ''bob'' (NotAString ''word.toLowerCase is not a function'') sampleRoom))
     \<lparr>emitted := emitted sampleRoom\<rparr> = sampleRoom \<and>
   emitted (snd (playWord ''bob'' (NotAString ''word.toLowerCase is not a function'') sampleRoom)) =
     emitted sampleRoom @
     [(ToRoom ''room_1'', ''errorOccurred'',
       ErrorPayload ''An unexpected error occurred in the game''
         ''TypeError: word.toLowerCase is not a function''),
      (ToSocket ''sB'', ''wordPlayFailed'',
       Reason ''An unexpected error occurred during word validation'')]"
proof -
  have dict: "validWords sampleRoom = WordSet {''apple'', ''elephant'', ''eagle'', ''tiger''}"
    and alice: "map_of (playersMap sampleRoom) ''alice'' = Some \<lparr>socketId = ''sA'', points = 5\<rparr>"
    and bob: "map_of (playersMap sampleRoom) ''bob'' = Some \<lparr>socketId = ''sB'', points = 0\<rparr>"
    and turn: "currentTurn sampleRoom = Some ''bob''"
    and rid: "roomId sampleRoom = ''room_1''"
    by (simp_all add: sampleRoom_eq sampleStarted_eq sampleLobby_eq)
  have a_turn: "validateWordPlay ''alice'' (JsString ''elephant'') sampleRoom =
                  (\<lparr>valid = False, reason = ''Not your turn''\<rparr>, sampleRoom)"
    by (rule sampleRoom_not_turn) simp
  have a_rej: "\<not> valid (fst (validateWordPlay ''alice'' (JsString ''elephant'') sampleRoom))"
    by (simp add: a_turn)
  have b_rej: "\<not> valid (fst (validateWordPlay ''bob'' (JsString ''zebra'') sampleRoom))"
    by (simp add: sampleRoom_bob_zebra)
  have n_rej: "\<not> valid (fst (validateWordPlay ''bob''
                  (NotAString ''word.toLowerCase is not a function'') sampleRoom))"
    by (rule validateWordPlay_non_string)
  have thrown: "isValidWord sampleRoom (NotAString ''word.toLowerCase is not a function'') =
                  Inl (TypeError ''word.toLowerCase is not a function'')"
    by (simp add: isValidWord_def)
  from playWord_rejected_keeps_state [OF a_rej,
      where D = "{''apple'', ''elephant'', ''eagle'', ''tiger''}" and w = "''elephant''"
        and p = "\<lparr>socketId = ''sA'', points = 5\<rparr>"]
    alice turn
  have a: "fst (playWord ''alice'' (JsString ''elephant'') sampleRoom) = False \<and>
     (snd (playWord ''alice'' (JsString ''elephant'') sampleRoom))\<lparr>emitted := emitted sampleRoom\<rparr> =
       sampleRoom \<and>
     emitted (snd (playWord ''alice'' (JsString ''elephant'') sampleRoom)) =
       emitted sampleRoom @ [(ToSocket ''sA'', ''wordPlayFailed'', Reason ''Not your turn'')]"
    by (simp add: a_turn)
  from playWord_rejected_keeps_state [OF b_rej,
      where D = "{''apple'', ''elephant'', ''eagle'', ''tiger''}" and w = "''zebra''"
        and p = "\<lparr>socketId = ''sB'', points = 0\<rparr>"]
    bob dict
  have b: "emitted (snd (playWord ''bob'' (JsString ''zebra'') sampleRoom)) =
       emitted sampleRoom @ [(ToSocket ''sB'', ''wordPlayFailed'', Reason ''Not a valid word'')]"
    by (simp add: sampleRoom_bob_zebra)
  from playWord_rejected_keeps_state [OF n_rej,
      where p = "\<lparr>socketId = ''sB'', points = 0\<rparr>"
        and err = "TypeError ''word.toLowerCase is not a function''"]
    bob turn thrown rid
  have n: "(snd (playWord ''bob'' (NotAString ''word.toLowerCase is not a function'') sampleRoom))
       \<lparr>emitted := emitted sampleRoom\<rparr> = sampleRoom \<and>
     emitted (snd (playWord ''bob'' (NotAString ''word.toLowerCase is not a function'') sampleRoom)) =
       emitted sampleRoom @
       [(ToRoom ''room_1'', ''errorOccurred'',
         ErrorPayload ''An unexpected error occurred in the game''
           ''TypeError: word.toLowerCase is not a function''),
        (ToSocket ''sB'', ''wordPlayFailed'',
         Reason ''An unexpected error occurred during word validation'')]"
    by simp
  from a b n show ?thesis by blast
qed

text \<open>
  C6 as stated fails for a submitter outside the room: Mallory, who never joined, submits
  a word to the sample room. The validation fails ("Not your turn"), no notification
  goes to Mallory, and the whole room receives \<open>errorOccurred\<close>.
\<close>

theorem playWord_rejected_outsider_counterexample:
  "\<not> valid (fst (validateWordPlay ''mallory'' (JsString ''elephant'') sampleRoom)) \<and>
   map_of (playersMap sampleRoom) ''mallory'' = None \<and>
   fst (playWord ''mallory'' (JsString ''elephant'') sampleRoom) = False \<and>
   emitted (snd (playWord ''mallory'' (JsString ''elephant'') sampleRoom)) =
     emitted sampleRoom @
     [(ToRoom ''room_1'', ''errorOccurred'',
       ErrorPayload ''An unexpected error occurred in the game''
         ''Error: No socket was found in the player map for player mallory'')]"
proof -
  have m_turn: "validateWordPlay ''mallory'' (JsString ''elephant'') sampleRoom =
                  (\<lparr>valid = False, reason = ''Not your turn''\<rparr>, sampleRoom)"
    by (rule sampleRoom_not_turn) simp
  have rejected: "\<not> valid (fst (validateWordPlay ''mallory'' (JsString ''elephant'') sampleRoom))"
    by (simp add: m_turn)
  have absent: "map_of (playersMap sampleRoom) ''mallory'' = None"
    and rid: "roomId sampleRoom = ''room_1''"
    by (simp_all add: sampleRoom_eq sampleStarted_eq sampleLobby_eq)
  from playWord_rejected_eq [OF rejected] rejected absent rid
  show ?thesis
    by (simp add: m_turn sendToPlayer_snd getUserSocket_def)
qed

section \<open>The router's end-game handler\<close>

lemma updateWinnerStats_other:
  assumes "v \<noteq> w"
  shows "filter (\<lambda>row. username row = w) (updateWinnerStats qerr db v) =
         filter (\<lambda>row. username row = w) db"
proof -
  have upd: "filter (\<lambda>row. username row = w)
               (map (\<lambda>row. if username row = v
                            then row\<lparr>gamesPlayed := gp, gamesWon := gw\<rparr> else row) db) =
             filter (\<lambda>row. username row = w) db" for gp gw
    using assms by (induction db) auto
  show ?thesis
    by (simp add: updateWinnerStats_def getUserStatsByUsername_def
          updateUserStatsByUserName_def upd split: option.splits list.splits)
qed

lemma foldl_updateWinnerStats_others:
  assumes "w \<notin> set vs"
  shows "filter (\<lambda>row. username row = w) (foldl (updateWinnerStats qerr) db vs) =
         filter (\<lambda>row. username row = w) db"
  using assms
proof (induction vs arbitrary: db)
  case Nil
  show ?case by simp
next
  case (Cons v vs)
  then have "v \<noteq> w" and "w \<notin> set vs" by auto
  with Cons.IH [of "updateWinnerStats qerr db v"] updateWinnerStats_other [of v w qerr db]
  show ?case by simp
qed

lemma getUserStats_filter:
  "filter (\<lambda>row. username row = w) db = filter (\<lambda>row. username row = w) db' \<Longrightarrow>
   getUserStatsByUsername qerr db w = getUserStatsByUsername qerr db' w"
  by (simp add: getUserStatsByUsername_def split: option.splits)

lemma updateWinnerStats_own:
  assumes sel: "qerr (SelectStats w) = None"
    and row: "getUserStatsByUsername qerr db w = Inr row"
    and upd: "qerr (UpdateStats w (gamesPlayed row + 1) (gamesWon row + 1)) = None"
  shows "getUserStatsByUsername qerr (updateWinnerStats qerr db w) w =
           Inr (row\<lparr>gamesPlayed := gamesPlayed row + 1, gamesWon := gamesWon row + 1\<rparr>)"
proof -
  from sel row obtain rest where f: "filter (\<lambda>r. username r = w) db = row # rest"
    by (auto simp: getUserStatsByUsername_def split: list.splits)
  then have "row \<in> set (filter (\<lambda>r. username r = w) db)" by simp
  then have name: "username row = w" by simp
  have m: "filter (\<lambda>r. username r = w)
             (map (\<lambda>r. if username r = w then r\<lparr>gamesPlayed := gp, gamesWon := gw\<rparr> else r) db) =
           map (\<lambda>r. r\<lparr>gamesPlayed := gp, gamesWon := gw\<rparr>) (filter (\<lambda>r. username r = w) db)"
    for gp gw
    by (induction db) auto
  show ?thesis
    using sel row upd
    by (simp add: updateWinnerStats_def updateUserStatsByUserName_def
          getUserStatsByUsername_def m f)
qed

lemma winner_stats_isolated:
  assumes dist: "distinct ws" and mem: "w \<in> set ws"
    and sel: "qerr (SelectStats w) = None"
    and row: "getUserStatsByUsername qerr db w = Inr row"
    and upd: "qerr (UpdateStats w (gamesPlayed row + 1) (gamesWon row + 1)) = None"
  shows "getUserStatsByUsername qerr (foldl (updateWinnerStats qerr) db ws) w =
           Inr (row\<lparr>gamesPlayed := gamesPlayed row + 1, gamesWon := gamesWon row + 1\<rparr>)"
proof -
  from mem obtain pre post where ws: "ws = pre @ w # post"
    by (auto simp: in_set_conv_decomp)
  with dist have pre: "w \<notin> set pre" and post: "w \<notin> set post" by auto
  let ?db1 = "foldl (updateWinnerStats qerr) db pre"
  let ?db2 = "updateWinnerStats qerr ?db1 w"
  have "getUserStatsByUsername qerr ?db1 w = Inr row"
    using getUserStats_filter [OF foldl_updateWinnerStats_others [OF pre, of qerr db], of qerr] row
    by simp
  from updateWinnerStats_own [OF sel this upd]
  have own: "getUserStatsByUsername qerr ?db2 w =
           Inr (row\<lparr>gamesPlayed := gamesPlayed row + 1, gamesWon := gamesWon row + 1\<rparr>)" .
  have "getUserStatsByUsername qerr (foldl (updateWinnerStats qerr) ?db2 post) w =
        getUserStatsByUsername qerr ?db2 w"
    by (rule getUserStats_filter [OF foldl_updateWinnerStats_others [OF post]])
  with own show ?thesis by (simp add: ws)
qed

lemma determineWinner_distinct:
  assumes "distinct (mapKeys (playersMap r))"
  shows "distinct (determineWinner r)"
proof -
  from winnerInv_foldl [of "playersMap r"]
  have "determineWinner r =
          map fst (filter (\<lambda>kv. points (snd kv) = fst (foldl winnerStep (- 1, []) (playersMap r)))
                     (playersMap r))"
    by (simp add: winnerInv_def determineWinner_def)
  with assms show ?thesis
    by (simp add: mapKeys_def distinct_map_filter)
qed

text \<open>
  C9. In the router's end-game handling, for a room whose map keys are distinct and
  whatever queries fail: the \<open>gameEnded\<close> result is broadcast to the room with the full
  winner list and the room is deleted; and every winner whose own fetch and update
  succeed has the games-played and games-won counters incremented, whether or not the
  fetch or update of any other winner was rejected.
\<close>

theorem routerEndGame_best_effort:
  assumes room: "rooms s rid = Some room"
    and keys: "distinct (mapKeys (playersMap room))"
  shows "sent (routerEndGame qerr socket rid s) =
           sent s @ [(ToRoom rid, ''gameEnded'',
                      GameEnded (determineWinner room) (playersMap room))] \<and>
         rooms (routerEndGame qerr socket rid s) rid = None \<and>
         (\<forall>w row. w \<in> set (determineWinner room) \<and>
                  getUserStatsByUsername qerr (users s) w = Inr row \<and>
                  qerr (UpdateStats w (gamesPlayed row + 1) (gamesWon row + 1)) = None \<longrightarrow>
                  getUserStatsByUsername qerr (users (routerEndGame qerr socket rid s)) w =
                    Inr (row\<lparr>gamesPlayed := gamesPlayed row + 1,
                              gamesWon := gamesWon row + 1\<rparr>))"
proof -
  have db: "users (routerEndGame qerr socket rid s) =
              foldl (updateWinnerStats qerr) (users s) (determineWinner room)"
    using room by (simp add: routerEndGame_def Let_def)
  have 1: "sent (routerEndGame qerr socket rid s) =
           sent s @ [(ToRoom rid, ''gameEnded'',
                      GameEnded (determineWinner room) (playersMap room))]"
    using room by (simp add: routerEndGame_def Let_def)
  have 2: "rooms (routerEndGame qerr socket rid s) rid = None"
    using room by (simp add: routerEndGame_def Let_def)
  have 3: "getUserStatsByUsername qerr (users (routerEndGame qerr socket rid s)) w =
             Inr (row\<lparr>gamesPlayed := gamesPlayed row + 1, gamesWon := gamesWon row + 1\<rparr>)"
    if w: "w \<in> set (determineWinner room)"
      and row: "getUserStatsByUsername qerr (users s) w = Inr row"
      and upd: "qerr (UpdateStats w (gamesPlayed row + 1) (gamesWon row + 1)) = None"
    for w row
  proof -
    from row have sel: "qerr (SelectStats w) = None"
      by (simp add: getUserStatsByUsername_def split: option.splits)
    from winner_stats_isolated [OF determineWinner_distinct [OF keys] w sel row upd]
    show ?thesis by (simp add: db)
  qed
  from 1 2 3 show ?thesis by blast
qed

theorem routerEndGame_best_effort_witness:
  "getUserStatsByUsername failAlice (users sampleRouter) ''alice'' = Inl (Error ''ECONNRESET'') \<and>
   determineWinner tieRoom = [''alice'', ''bob''] \<and>
   sent (routerEndGame failAlice ''sB'' ''room_1'' sampleRouter) =
     [(ToRoom ''room_1'', ''gameEnded'', GameEnded [''alice'', ''bob''] (playersMap tieRoom))] \<and>
   getUserStatsByUsername failAlice
     (users (routerEndGame failAlice ''sB'' ''room_1'' sampleRouter)) ''bob'' =
     Inr \<lparr>username = ''bob'', gamesPlayed = 8, gamesWon = 3\<rparr>"
proof -
  have room: "rooms sampleRouter ''room_1'' = Some tieRoom"
    by (simp add: sampleRouter_def)
  have keys: "distinct (mapKeys (playersMap tieRoom))"
    by (simp add: tieRoom_players mapKeys_def)
  have winners: "determineWinner tieRoom = [''alice'', ''bob'']"
    by (simp add: determineWinner_def winnerStep_def tieRoom_players)
  have alice: "getUserStatsByUsername failAlice (users sampleRouter) ''alice'' =
                 Inl (Error ''ECONNRESET'')"
    by (simp add: getUserStatsByUsername_def failAlice_def)
  have bob: "getUserStatsByUsername failAlice (users sampleRouter) ''bob'' =
               Inr \<lparr>username = ''bob'', gamesPlayed = 7, gamesWon = 2\<rparr>"
    by (simp add: getUserStatsByUsername_def failAlice_def sampleRouter_def)
  have upd: "failAlice (UpdateStats ''bob'' 8 3) = None"
    by (simp add: failAlice_def)
  note inst = routerEndGame_best_effort [OF room keys, of failAlice "''sB''"]
  from inst have log: "sent (routerEndGame failAlice ''sB'' ''room_1'' sampleRouter) =
      sent sampleRouter @ [(ToRoom ''room_1'', ''gameEnded'',
                            GameEnded (determineWinner tieRoom) (playersMap tieRoom))]"
    by blast
  from inst have "''bob'' \<in> set (determineWinner tieRoom) \<and>
      getUserStatsByUsername failAlice (users sampleRouter) ''bob'' =
        Inr \<lparr>username = ''bob'', gamesPlayed = 7, gamesWon = 2\<rparr> \<and>
      failAlice (UpdateStats ''bob''
        (gamesPlayed \<lparr>username = ''bob'', gamesPlayed = 7, gamesWon = 2\<rparr> + 1)
        (gamesWon \<lparr>username = ''bob'', gamesPlayed = 7, gamesWon = 2\<rparr> + 1)) = None \<longrightarrow>
      getUserStatsByUsername failAlice
        (users (routerEndGame failAlice ''sB'' ''room_1'' sampleRouter)) ''bob'' =
        Inr (\<lparr>username = ''bob'', gamesPlayed = 7, gamesWon = 2\<rparr>
               \<lparr>gamesPlayed := gamesPlayed \<lparr>username = ''bob'', gamesPlayed = 7, gamesWon = 2\<rparr> + 1,
                gamesWon := gamesWon \<lparr>username = ''bob'', gamesPlayed = 7, gamesWon = 2\<rparr> + 1\<rparr>)"
    by blast
  with winners bob upd
  have stats: "getUserStatsByUsername failAlice
        (users (routerEndGame failAlice ''sB'' ''room_1'' sampleRouter)) ''bob'' =
        Inr \<lparr>username = ''bob'', gamesPlayed = 8, gamesWon = 3\<rparr>"
    by simp
  from log winners alice stats show ?thesis by (simp add: sampleRouter_def)
qed

section \<open>Scores are never negative\<close>

lemma players_notify [simp]:
  "playersMap (emit t e p r) = playersMap r"
  "playersMap (snd (broadcast e p r)) = playersMap r"
  "playersMap (handleError err r) = playersMap r"
  "playersMap (snd (sendToPlayer u e p r)) = playersMap r"
  by (simp_all add: emit_def broadcast_snd handleError_eq sendToPlayer_snd)

lemma players_timers [simp]:
  "playersMap (snd (setTimeout cb d r)) = playersMap r"
  "playersMap (clearTimeout h r) = playersMap r"
  "playersMap (clearGameTimers r) = playersMap r"
  "playersMap (deleteRoom why r) = playersMap r"
  by (simp_all add: setTimeout_def clearTimeout_def clearGameTimers_def deleteRoom_def Let_def
        split: option.splits)

lemma players_turns [simp]:
  "playersMap (snd (nextTurn r)) = playersMap r"
  "playersMap (startRound r) = playersMap r"
  "playersMap (addUsedWords w r) = playersMap r"
  by (simp_all add: nextTurn_def startRound_frame addUsedWords_def Let_def)

lemma pointsNonneg_addPoints:
  assumes "0 \<le> n" and "pointsNonneg r"
  shows "pointsNonneg (snd (addPoints u n r))"
  using assms
  by (auto simp: pointsNonneg_def addPoints_def split: option.splits)

lemma pointsNonneg_addPlayer:
  assumes "pointsNonneg r"
  shows "pointsNonneg (snd (addPlayer u sid r))"
  using assms
  by (auto simp: pointsNonneg_def addPlayer_def mapSet_def)

lemma pointsNonneg_removePlayer:
  assumes "pointsNonneg r"
  shows "pointsNonneg (snd (removePlayer u r))"
proof -
  have "set (playersMap (snd (removePlayer u r))) \<subseteq> set (playersMap r)"
    by (auto simp: removePlayer_def endGame_def mapDelete_def Let_def)
  with assms show ?thesis by (auto simp: pointsNonneg_def)
qed

lemma pointsNonneg_same:
  "playersMap r' = playersMap r \<Longrightarrow> pointsNonneg r \<Longrightarrow> pointsNonneg r'"
  by (simp add: pointsNonneg_def)

lemma pointsNonneg_handleRoundTimeout:
  assumes "pointsNonneg r"
  shows "pointsNonneg (handleRoundTimeout r)"
proof -
  have "playersMap (handleRoundTimeout r) = playersMap (snd (addPoints (currentTurn r) 0 r))"
    by (simp add: handleRoundTimeout_def Let_def)
  with pointsNonneg_addPoints [of 0 r "currentTurn r"] assms show ?thesis
    by (simp add: pointsNonneg_def)
qed

lemma pointsNonneg_playWord_rejected:
  assumes "pointsNonneg r" and "\<not> valid (fst (validateWordPlay u word r))"
  shows "pointsNonneg (snd (playWord u word r))"
proof -
  from assms(2) have "playersMap (snd (playWord u word r)) = playersMap r"
    by (simp add: playWord_rejected_eq validateWordPlay_keeps_fields)
  then show ?thesis using assms(1) by (rule pointsNonneg_same)
qed

lemma pointsNonneg_playWord_string:
  assumes "pointsNonneg r"
  shows "pointsNonneg (snd (playWord u (JsString w) r))"
proof (cases "valid (fst (validateWordPlay u (JsString w) r))")
  case False
  with assms show ?thesis by (rule pointsNonneg_playWord_rejected)
next
  case True
  let ?r2 = "case roundTimer (snd (validateWordPlay u (JsString w) r)) of
               Some h \<Rightarrow> clearTimeout h (snd (validateWordPlay u (JsString w) r))
             | None \<Rightarrow> snd (validateWordPlay u (JsString w) r)"
  have same: "playersMap ?r2 = playersMap r"
    by (simp add: validateWordPlay_keeps_fields split: option.splits)
  from True have "playersMap (snd (playWord u (JsString w) r)) =
      playersMap (snd (addPoints (Some u) (int (length w)) ?r2))"
    by (simp add: playWord_def Let_def)
  moreover have "pointsNonneg (snd (addPoints (Some u) (int (length w)) ?r2))"
    by (rule pointsNonneg_addPoints) (simp_all add: pointsNonneg_same [OF same assms])
  ultimately show ?thesis by (simp add: pointsNonneg_def)
qed

lemma pointsNonneg_playWord:
  assumes "pointsNonneg r"
  shows "pointsNonneg (snd (playWord u word r))"
proof (cases word)
  case (JsString w)
  with assms show ?thesis by (simp add: pointsNonneg_playWord_string)
next
  case (NotAString msg)
  with assms validateWordPlay_non_string [of u msg r] show ?thesis
    by (simp add: pointsNonneg_playWord_rejected)
qed

lemma pointsNonneg_startGame:
  assumes "pointsNonneg r"
  shows "pointsNonneg (snd (startGame shuffle r))"
proof -
  have "playersMap (snd (startGame shuffle r)) = playersMap r"
    by (simp add: startGame_def initializeTurnOrder_def Let_def)
  then show ?thesis using assms by (rule pointsNonneg_same)
qed

lemma pointsNonneg_newGameRoom: "pointsNonneg (newGameRoom creator rid sid now wordFile)"
  by (simp add: pointsNonneg_def newGameRoom_def loadWordList_def Let_def split: sum.splits)

lemma pointsNonneg_fireTimer:
  assumes "fireTimer h r = Inr r'" and "pointsNonneg r"
  shows "pointsNonneg r'"
proof -
  let ?r1 = "r\<lparr>pending := filter (\<lambda>t. fst t \<noteq> h) (pending r)\<rparr>"
  have r1: "pointsNonneg ?r1" using assms(2) by (simp add: pointsNonneg_def)
  from assms(1) have "r' = r \<or> r' = deleteRoom ''Room expired'' ?r1 \<or> r' = handleRoundTimeout ?r1"
    by (auto simp: fireTimer_def endGame_def Let_def split: option.splits callback.splits)
  then show ?thesis
    using assms(2) r1 pointsNonneg_handleRoundTimeout [OF r1]
    by (auto simp: pointsNonneg_def)
qed

lemma reachable_points_nonneg:
  "reachable r \<Longrightarrow> pointsNonneg r"
proof (induction rule: reachable.induct)
  case (created creator rid sid now wordFile)
  show ?case by (rule pointsNonneg_newGameRoom)
next
  case (added r username sid)
  then show ?case by (simp add: pointsNonneg_addPlayer)
next
  case (removed r username)
  then show ?case by (simp add: pointsNonneg_removePlayer)
next
  case (started r shuffle)
  then show ?case by (simp add: pointsNonneg_startGame)
next
  case (played r username word)
  then show ?case by (simp add: pointsNonneg_playWord)
next
  case (turned r)
  then show ?case by (simp add: pointsNonneg_def)
next
  case (round_started r)
  then show ?case by (simp add: pointsNonneg_def)
next
  case (timed_out r)
  then show ?case by (simp add: pointsNonneg_handleRoundTimeout)
next
  case (deleted r why)
  then show ?case by (simp add: pointsNonneg_def)
next
  case (ended r res)
  then show ?case by (simp add: endGame_def)
next
  case (fired r h r')
  then show ?case by (simp add: pointsNonneg_fireTimer)
qed

section \<open>The older single-winner variant\<close>

text \<open>
  On a tie the class's \<open>determineWinner\<close> returns both players; the older copy returns
  only the first of them.
\<close>

lemma determineWinnerLegacy_tie:
  "determineWinner tieRoom = [''alice'', ''bob''] \<and> determineWinnerLegacy tieRoom = Some ''alice''"
  by (simp add: determineWinner_def winnerStep_def determineWinnerLegacy_def legacyWinnerStep_def
        tieRoom_players)

end
